theory Spec2Isabelle
  imports Main
begin

section \<open>JavaScript values used by the logger\<close>

text \<open>
  Timestamps travel through the program as strings (\<open>played_at\<close>, \<open>playedAt\<close>,
  \<open>lastAttempt\<close>, the first cell of a sheet row) and are compared after
  \<open>new Date(s).getTime()\<close>. The parser belongs to the JavaScript runtime, so every
  function that parses takes it as the parameter \<open>D\<close>; \<open>None\<close> stands for \<open>NaN\<close>
  (an invalid date). Parsed values are integral milliseconds, far below \<open>2^53\<close>, so
  subtraction and comparison on them are exact and \<open>int\<close> models them.
  A property that may be \<open>undefined\<close> is an \<open>option\<close>.
\<close>

type_synonym jsnum = "int option"
type_synonym dateParser = "string \<Rightarrow> int option"

definition truthy :: "string option \<Rightarrow> bool" where
  \<comment> \<open>\<open>!!s\<close> for a string or \<open>undefined\<close>: only \<open>undefined\<close> and the empty string are falsy.\<close>
  "truthy s = (case s of None \<Rightarrow> False | Some x \<Rightarrow> x \<noteq> [])"

definition getTime :: "dateParser \<Rightarrow> string option \<Rightarrow> jsnum" where
  \<comment> \<open>\<open>new Date(s).getTime()\<close>; \<open>new Date(undefined)\<close> and \<open>new Date('')\<close> are invalid dates.\<close>
  "getTime D s = (case s of None \<Rightarrow> None | Some x \<Rightarrow> if x = [] then None else D x)"

definition num_sub :: "jsnum \<Rightarrow> jsnum \<Rightarrow> jsnum" where
  "num_sub a b = (case a of None \<Rightarrow> None | Some x \<Rightarrow> (case b of None \<Rightarrow> None | Some y \<Rightarrow> Some (x - y)))"

definition num_abs :: "jsnum \<Rightarrow> jsnum" where
  "num_abs a = map_option abs a"

definition num_lt :: "jsnum \<Rightarrow> jsnum \<Rightarrow> bool" where
  \<comment> \<open>\<open>a < b\<close>: false as soon as one side is \<open>NaN\<close>.\<close>
  "num_lt a b = (case a of None \<Rightarrow> False | Some x \<Rightarrow> (case b of None \<Rightarrow> False | Some y \<Rightarrow> x < y))"

definition num_le :: "jsnum \<Rightarrow> jsnum \<Rightarrow> bool" where
  "num_le a b = (case a of None \<Rightarrow> False | Some x \<Rightarrow> (case b of None \<Rightarrow> False | Some y \<Rightarrow> x \<le> y))"

definition num_gt :: "jsnum \<Rightarrow> jsnum \<Rightarrow> bool" where
  "num_gt a b = num_lt b a"

definition num_ge :: "jsnum \<Rightarrow> jsnum \<Rightarrow> bool" where
  "num_ge a b = num_le b a"

section \<open>Data model\<close>

text \<open>
  An item of Spotify's recently-played list. \<open>track_id\<close>, \<open>track_name\<close> and
  \<open>duration_ms\<close> are \<open>track.id\<close>, \<open>track.name\<close> and \<open>track.duration_ms\<close> (renamed:
  \<open>id\<close> is a HOL constant); \<open>track = None\<close> is \<open>track: null\<close>.
\<close>

record track_obj =
  track_id :: "string option"
  track_name :: "string option"
  duration_ms :: "int option"

record play_item =
  track :: "track_obj option"
  played_at :: "string option"

text \<open>
  The \<open>lastProcessed\<close> marker. \<open>updateLastProcessed\<close> writes \<open>trackId\<close>,
  \<open>timestamp\<close>, \<open>playedAt\<close>; \<open>findLastProcessedInSheet\<close> also sets \<open>trackName\<close>.
\<close>

record marker =
  trackId :: "string option"
  trackName :: "string option"
  timestamp :: "string option"
  playedAt :: "string option"

text \<open>
  An entry of \<open>failedQueue\<close>; the fields are \<open>trackId\<close>, \<open>trackName\<close>, \<open>playedAt\<close>,
  \<open>attemptCount\<close>, \<open>lastAttempt\<close>, \<open>error\<close> and \<open>partialData\<close> of the source, prefixed
  where the marker already has a field of that name.
\<close>

record entry =
  entryTrackId :: "string option"
  entryTrackName :: "string option"
  entryPlayedAt :: "string option"
  attemptCount :: int
  lastAttempt :: "string option"
  entryError :: string
  partialData :: play_item

record run_stats =
  lastRun :: "string option"
  successCount :: int
  failureCount :: int

text \<open>
  The persisted state document. \<open>metrics\<close> and \<open>alerts\<close> are the sub-documents that
  the metrics and alerting modules keep in the same document; their content is opaque here.
  The type is the documented shape: \<open>failedQueue\<close> is always an array and \<open>stats\<close> always
  an object, \<open>lastProcessed\<close> may be \<open>null\<close>.
\<close>

type_synonym json = string

record doc =
  lastProcessed :: "marker option"
  failedQueue :: "entry list"
  stats :: run_stats
  metrics :: "json option"
  alerts :: "json option"

section \<open>Play filter (lib/play-filter.js)\<close>

definition MIN_PLAY_DURATION_MS :: int where
  "MIN_PLAY_DURATION_MS = 30000"

definition item_id :: "play_item \<Rightarrow> string option" where
  \<comment> \<open>\<open>track.track?.id\<close>\<close>
  "item_id t = (case track t of None \<Rightarrow> None | Some tr \<Rightarrow> track_id tr)"

definition item_duration :: "play_item \<Rightarrow> int" where
  \<comment> \<open>\<open>track.track?.duration_ms || 0\<close>\<close>
  "item_duration t =
     (case track t of None \<Rightarrow> 0
      | Some tr \<Rightarrow> (case duration_ms tr of None \<Rightarrow> 0 | Some d \<Rightarrow> d))"

definition isValidPlay :: "play_item \<Rightarrow> int \<Rightarrow> bool" where
  "isValidPlay t minDuration =
     (let trackDuration = item_duration t
      in if trackDuration < minDuration then trackDuration > 0 else True)"

definition isDuplicate :: "dateParser \<Rightarrow> play_item \<Rightarrow> marker option \<Rightarrow> bool" where
  "isDuplicate D t lp =
     (case lp of
        None \<Rightarrow> False
      | Some m \<Rightarrow>
          if \<not> truthy (trackId m) then False
          else
            let tid = item_id t;
                playedAtMs = getTime D (played_at t);
                lastPlayedAt = getTime D (playedAt m)
            in if tid = trackId m then
                 (let timeDiff = num_abs (num_sub playedAtMs lastPlayedAt)
                  in if num_lt timeDiff (Some MIN_PLAY_DURATION_MS) then True else False)
               else False)"

definition lastProcessedTime :: "dateParser \<Rightarrow> doc option \<Rightarrow> jsnum" where
  \<comment> \<open>\<open>lastProcessedState?.lastProcessed?.playedAt ? new Date(...).getTime() : 0\<close>\<close>
  "lastProcessedTime D st =
     (case st of
        None \<Rightarrow> Some 0
      | Some s \<Rightarrow>
          (case lastProcessed s of
             None \<Rightarrow> Some 0
           | Some m \<Rightarrow> if truthy (playedAt m) then getTime D (playedAt m) else Some 0))"

definition state_marker :: "doc option \<Rightarrow> marker option" where
  \<comment> \<open>\<open>lastProcessedState?.lastProcessed\<close>\<close>
  "state_marker st = (case st of None \<Rightarrow> None | Some s \<Rightarrow> lastProcessed s)"

definition keepPlay :: "dateParser \<Rightarrow> doc option \<Rightarrow> play_item \<Rightarrow> bool" where
  \<comment> \<open>the callback of \<open>recentTracks.filter\<close> in \<open>filterNewPlays\<close>\<close>
  "keepPlay D st t =
     (if \<not> isValidPlay t MIN_PLAY_DURATION_MS then False
      else if isDuplicate D t (state_marker st) then False
      else if num_le (getTime D (played_at t)) (lastProcessedTime D st) then False
      else True)"

definition filterNewPlays :: "dateParser \<Rightarrow> play_item list option \<Rightarrow> doc option \<Rightarrow> play_item list" where
  "filterNewPlays D recentTracks st =
     (case recentTracks of
        None \<Rightarrow> []
      | Some ts \<Rightarrow> if length ts = 0 then [] else filter (keepPlay D st) ts)"

definition timeLE :: "dateParser \<Rightarrow> play_item \<Rightarrow> play_item \<Rightarrow> bool" where
  \<comment> \<open>the comparator \<open>timeA - timeB\<close> of \<open>sortTracksByTimestamp\<close> gives a result \<open>\<le> 0\<close>;
      \<open>Array.prototype.sort\<close> reads a \<open>NaN\<close> result as \<open>0\<close>\<close>
  "timeLE D a b =
     (case num_sub (getTime D (played_at a)) (getTime D (played_at b)) of
        None \<Rightarrow> True
      | Some d \<Rightarrow> d \<le> 0)"

fun insertByTime :: "dateParser \<Rightarrow> play_item \<Rightarrow> play_item list \<Rightarrow> play_item list" where
  "insertByTime D x [] = [x]"
| "insertByTime D x (y # ys) = (if timeLE D x y then x # y # ys else y # insertByTime D x ys)"

definition sortTracksByTimestamp :: "dateParser \<Rightarrow> play_item list \<Rightarrow> play_item list" where
  \<comment> \<open>\<open>[...tracks].sort(...)\<close>: a stable sort, oldest first. With parseable timestamps every
      stable sort returns this list; with an unparseable one the comparator is not an order
      and the engine's result is not determined by the source.\<close>
  "sortTracksByTimestamp D tracks = foldr (insertByTime D) tracks []"

definition getMostRecentTrack :: "dateParser \<Rightarrow> play_item list option \<Rightarrow> play_item option" where
  \<comment> \<open>\<open>tracks.reduce((latest, current) => currentTime > latestTime ? current : latest)\<close>\<close>
  "getMostRecentTrack D tracks =
     (case tracks of
        None \<Rightarrow> None
      | Some [] \<Rightarrow> None
      | Some (t # ts) \<Rightarrow>
          Some (foldl (\<lambda>latest current.
                  if num_gt (getTime D (played_at current)) (getTime D (played_at latest))
                  then current else latest) t ts))"

section \<open>Deduplication and reconciliation (lib/deduplication.js)\<close>

type_synonym row = "string list"

definition cell :: "row \<Rightarrow> nat \<Rightarrow> string option" where
  \<comment> \<open>\<open>row[i]\<close>: \<open>undefined\<close> past the end of the row\<close>
  "cell r i = (if i < length r then Some (r ! i) else None)"

definition findLastProcessedInSheet :: "row list option \<Rightarrow> marker option" where
  "findLastProcessedInSheet sheetRows =
     (case sheetRows of
        None \<Rightarrow> None
      | Some rows \<Rightarrow>
          if length rows \<le> 1 then None
          else
            let lastRow = last rows;
                ts = cell lastRow 0;
                tname = cell lastRow 1;
                tid = cell lastRow 7
            in if \<not> truthy tid \<or> \<not> truthy ts then None
               else Some \<lparr>trackId = tid, trackName = tname, timestamp = ts, playedAt = ts\<rparr>)"

definition zeroStats :: run_stats where
  "zeroStats = \<lparr>lastRun = None, successCount = 0, failureCount = 0\<rparr>"

definition reconcileState :: "dateParser \<Rightarrow> row list option \<Rightarrow> doc option \<Rightarrow> doc option" where
  "reconcileState D sheetData localState =
     (case findLastProcessedInSheet sheetData of
        None \<Rightarrow> localState
      | Some sheetLastProcessed \<Rightarrow>
          (case localState of
             None \<Rightarrow>
               Some \<lparr>lastProcessed = Some sheetLastProcessed, failedQueue = [], stats = zeroStats,
                     metrics = None, alerts = None\<rparr>
           | Some ls \<Rightarrow>
               (case lastProcessed ls of
                  None \<Rightarrow>
                    Some \<lparr>lastProcessed = Some sheetLastProcessed, failedQueue = failedQueue ls,
                          stats = stats ls, metrics = None, alerts = None\<rparr>
                | Some lp \<Rightarrow>
                    let sheetTime = getTime D (playedAt sheetLastProcessed);
                        localTime = getTime D (playedAt lp)
                    in if num_gt sheetTime localTime then
                         Some \<lparr>lastProcessed = Some sheetLastProcessed, failedQueue = failedQueue ls,
                               stats = stats ls, metrics = None, alerts = None\<rparr>
                       else localState)))"

fun rowsContain :: "dateParser \<Rightarrow> string option \<Rightarrow> jsnum \<Rightarrow> row list \<Rightarrow> bool" where
  \<comment> \<open>the \<open>for\<close> loop of \<open>isTrackInSheet\<close> over the data rows\<close>
  "rowsContain D tid playedAtMs [] = False"
| "rowsContain D tid playedAtMs (r # rs) =
     (let rowTrackId = cell r 7; rowTimestamp = cell r 0
      in if \<not> truthy rowTrackId \<or> \<not> truthy rowTimestamp then rowsContain D tid playedAtMs rs
         else if rowTrackId = tid
                 \<and> num_lt (num_abs (num_sub playedAtMs (getTime D rowTimestamp))) (Some MIN_PLAY_DURATION_MS)
         then True
         else rowsContain D tid playedAtMs rs)"

definition isTrackInSheet :: "dateParser \<Rightarrow> play_item \<Rightarrow> row list option \<Rightarrow> bool" where
  "isTrackInSheet D t sheetRows =
     (case sheetRows of
        None \<Rightarrow> False
      | Some rows \<Rightarrow>
          if length rows \<le> 1 then False
          else rowsContain D (item_id t) (getTime D (played_at t)) (tl rows))"

definition filterDuplicatesAgainstSheet ::
  "dateParser \<Rightarrow> play_item list option \<Rightarrow> row list option \<Rightarrow> play_item list" where
  "filterDuplicatesAgainstSheet D tracks sheetRows =
     (case tracks of
        None \<Rightarrow> []
      | Some ts \<Rightarrow> if length ts = 0 then [] else filter (\<lambda>t. \<not> isTrackInSheet D t sheetRows) ts)"

section \<open>The persistence backends (state manager)\<close>

text \<open>
  What a read of one of the two JSON files gives: \<open>Missing\<close> is \<open>ENOENT\<close>, \<open>Unreadable\<close>
  any other error of \<open>fs.readFile\<close>, \<open>Garbage\<close> bytes on which \<open>JSON.parse\<close> throws, and
  \<open>Doc d\<close> the text of the document \<open>d\<close> (\<open>JSON.parse\<close> of \<open>JSON.stringify d\<close> is \<open>d\<close>: a
  property that is \<open>undefined\<close> is left out and read back as \<open>undefined\<close>).
\<close>

datatype filedata = Missing | Unreadable | Garbage | Doc doc

text \<open>
  The local backend. \<open>stateDirOk\<close> says that \<open>ensureStateDir\<close> returns (the directory is
  there or \<open>mkdir\<close> creates it); the two \<open>Writable\<close> flags say whether \<open>fs.writeFile\<close> on
  that file succeeds. The flags do not change during a run.
\<close>

record fsys =
  stateDirOk :: bool
  stateFile :: filedata
  backupFile :: filedata
  stateFileWritable :: bool
  backupFileWritable :: bool

text \<open>
  The Vercel KV backend: the values under \<open>state:full\<close>, \<open>state:lastProcessed\<close>,
  \<open>state:failedQueue\<close> and \<open>state:stats\<close> (\<open>None\<close>: the key is not set), and whether the
  dynamic import of the client, \<open>kv.get\<close> and \<open>kv.set\<close> succeed.
\<close>

record kvstore =
  kvClientOk :: bool
  kvGetOk :: bool
  kvSetOk :: bool
  kvStateFull :: "doc option"
  kvLastProcessed :: "marker option option"
  kvFailedQueue :: "entry list option"
  kvStats :: "run_stats option"

record procenv =
  USE_KV :: "string option"
  VERCEL_ENV :: "string option"
  KV_REST_API_URL :: "string option"
  KV_REST_API_TOKEN :: "string option"

text \<open>
  The memory of the running module. \<open>DEFAULT_STATE\<close> is one object created when the module is
  loaded; \<open>{ ...DEFAULT_STATE }\<close> copies its three properties, so the copy's \<open>failedQueue\<close> is
  the very array and its \<open>stats\<close> the very object that \<open>DEFAULT_STATE\<close> refers to. The two
  fields below are the current contents of that array and that object.
  \<open>executionStarted\<close> is \<open>currentExecutionMetrics.startTime\<close> being set (metrics module).
\<close>

record modmem =
  DEFAULT_failedQueue :: "entry list"
  DEFAULT_stats :: run_stats
  executionStarted :: bool

record world =
  env :: procenv
  memory :: modmem
  disk :: fsys
  kv :: kvstore

definition freshMemory :: modmem where
  \<comment> \<open>the module as loaded: \<open>failedQueue: []\<close>, \<open>stats: { lastRun: null, successCount: 0, failureCount: 0 }\<close>\<close>
  "freshMemory = \<lparr>DEFAULT_failedQueue = [], DEFAULT_stats = zeroStats, executionStarted = False\<rparr>"

definition DEFAULT_STATE :: "world \<Rightarrow> doc" where
  "DEFAULT_STATE w =
     \<lparr>lastProcessed = None, failedQueue = DEFAULT_failedQueue (memory w),
      stats = DEFAULT_stats (memory w), metrics = None, alerts = None\<rparr>"

datatype error =
    MkdirFailed
  | SaveFailed
  | SaveToKVFailed
  | ApiError string

text \<open>
  A loaded state comes with where its nested array and object live: \<open>Parsed\<close> (fresh from
  \<open>JSON.parse\<close> or the KV client) or \<open>Shared\<close> (those of \<open>DEFAULT_STATE\<close>).
\<close>

datatype origin = Parsed | Shared

definition shouldUseKV :: "procenv \<Rightarrow> bool" where
  "shouldUseKV e =
     (let useKV = (USE_KV e = Some ''true'');
          isVercel = (VERCEL_ENV e \<noteq> None);
          hasKVCredentials = (truthy (KV_REST_API_URL e) \<and> truthy (KV_REST_API_TOKEN e))
      in (useKV \<or> isVercel) \<and> hasKVCredentials)"

definition ensureStateDir :: "world \<Rightarrow> error option" where
  "ensureStateDir w = (if stateDirOk (disk w) then None else Some MkdirFailed)"

definition loadStateLocal :: "world \<Rightarrow> error + (doc \<times> origin)" where
  "loadStateLocal w =
     (case ensureStateDir w of
        Some e \<Rightarrow> Inl e
      | None \<Rightarrow>
          (case stateFile (disk w) of
             Doc d \<Rightarrow> Inr (d, Parsed)
           | Missing \<Rightarrow> Inr (DEFAULT_STATE w, Shared)
           | _ \<Rightarrow>
               (case backupFile (disk w) of
                  Doc b \<Rightarrow> Inr (b, Parsed)
                | _ \<Rightarrow> Inr (DEFAULT_STATE w, Shared))))"

definition readableFile :: "filedata \<Rightarrow> bool" where
  \<comment> \<open>\<open>fs.readFile\<close> returns the bytes, whether or not they parse\<close>
  "readableFile f = (case f of Garbage \<Rightarrow> True | Doc d \<Rightarrow> True | _ \<Rightarrow> False)"

definition saveStateLocal :: "doc \<Rightarrow> world \<Rightarrow> error option \<times> world" where
  "saveStateLocal st w =
     (case ensureStateDir w of
        Some e \<Rightarrow> (Some e, w)
      | None \<Rightarrow>
          let d0 = disk w;
              d1 = (if readableFile (stateFile d0) \<and> backupFileWritable d0
                    then d0\<lparr>backupFile := stateFile d0\<rparr> else d0)
          in if stateFileWritable d1
             then (None, w\<lparr>disk := d1\<lparr>stateFile := Doc st\<rparr>\<rparr>)
             else (Some SaveFailed, w\<lparr>disk := d1\<rparr>))"

definition loadStateKV :: "world \<Rightarrow> error + (doc \<times> origin)" where
  "loadStateKV w =
     (if \<not> shouldUseKV (env w) \<or> \<not> kvClientOk (kv w) \<or> \<not> kvGetOk (kv w)
      then Inr (DEFAULT_STATE w, Shared)
      else (case kvStateFull (kv w) of
              Some d \<Rightarrow> Inr (d, Parsed)
            | None \<Rightarrow> Inr (DEFAULT_STATE w, Shared)))"

definition saveStateKV :: "doc \<Rightarrow> world \<Rightarrow> error option \<times> world" where
  \<comment> \<open>the four \<open>kv.set\<close> calls succeed or fail together (\<open>kvSetOk\<close>); a failure after the
      first call, which would leave \<open>state:full\<close> written before the exception, is not modelled\<close>
  "saveStateKV st w =
     (if \<not> shouldUseKV (env w) \<or> \<not> kvClientOk (kv w) \<or> \<not> kvSetOk (kv w)
      then (Some SaveToKVFailed, w)
      else (None, w\<lparr>kv := (kv w)\<lparr>kvStateFull := Some st,
                                 kvLastProcessed := Some (lastProcessed st),
                                 kvFailedQueue := Some (failedQueue st),
                                 kvStats := Some (stats st)\<rparr>\<rparr>))"

definition loadState :: "world \<Rightarrow> error + (doc \<times> origin)" where
  "loadState w = (if shouldUseKV (env w) then loadStateKV w else loadStateLocal w)"

definition saveState :: "doc \<Rightarrow> world \<Rightarrow> error option \<times> world" where
  "saveState st w = (if shouldUseKV (env w) then saveStateKV st w else saveStateLocal st w)"

subsection \<open>The public operations\<close>

definition orElse :: "string option \<Rightarrow> string \<Rightarrow> string" where
  \<comment> \<open>\<open>s || dflt\<close>\<close>
  "orElse s dflt = (case s of None \<Rightarrow> dflt | Some x \<Rightarrow> if x = [] then dflt else x)"

definition item_name :: "play_item \<Rightarrow> string option" where
  \<comment> \<open>\<open>track.track?.name\<close>\<close>
  "item_name t = (case track t of None \<Rightarrow> None | Some tr \<Rightarrow> track_name tr)"

definition getLastProcessed :: "world \<Rightarrow> error + marker option" where
  "getLastProcessed w = (case loadState w of Inl e \<Rightarrow> Inl e | Inr (st, og) \<Rightarrow> Inr (lastProcessed st))"

definition updateLastProcessed :: "play_item \<Rightarrow> string \<Rightarrow> world \<Rightarrow> error option \<times> world" where
  \<comment> \<open>\<open>now\<close> is \<open>new Date().toISOString()\<close>. The assignment replaces a property of the
      loaded object itself, so \<open>DEFAULT_STATE\<close> is not touched.\<close>
  "updateLastProcessed t now w =
     (case loadState w of
        Inl e \<Rightarrow> (Some e, w)
      | Inr (st, og) \<Rightarrow>
          saveState (st\<lparr>lastProcessed :=
                         Some \<lparr>trackId = Some (orElse (item_id t) []), trackName = None,
                               timestamp = Some now, playedAt = played_at t\<rparr>\<rparr>) w)"

fun findIndex :: "('a \<Rightarrow> bool) \<Rightarrow> 'a list \<Rightarrow> nat option" where
  "findIndex P [] = None"
| "findIndex P (x # xs) = (if P x then Some 0 else map_option Suc (findIndex P xs))"

definition setSharedQueue :: "origin \<Rightarrow> entry list \<Rightarrow> world \<Rightarrow> world" where
  \<comment> \<open>an in-place change of the loaded \<open>failedQueue\<close> array: when the array is the one of
      \<open>DEFAULT_STATE\<close>, that is the array that changes\<close>
  "setSharedQueue og q w =
     (case og of Parsed \<Rightarrow> w | Shared \<Rightarrow> w\<lparr>memory := (memory w)\<lparr>DEFAULT_failedQueue := q\<rparr>\<rparr>)"

definition setSharedStats :: "origin \<Rightarrow> run_stats \<Rightarrow> world \<Rightarrow> world" where
  "setSharedStats og s w =
     (case og of Parsed \<Rightarrow> w | Shared \<Rightarrow> w\<lparr>memory := (memory w)\<lparr>DEFAULT_stats := s\<rparr>\<rparr>)"

definition addToFailedQueue :: "play_item \<Rightarrow> string \<Rightarrow> string \<Rightarrow> world \<Rightarrow> error option \<times> world" where
  "addToFailedQueue t err now w =
     (case loadState w of
        Inl e \<Rightarrow> (Some e, w)
      | Inr (st, og) \<Rightarrow>
          let failedEntry =
                \<lparr>entryTrackId = Some (orElse (item_id t) []),
                 entryTrackName = Some (orElse (item_name t) ''Unknown''),
                 entryPlayedAt = played_at t,
                 attemptCount = 1,
                 lastAttempt = Some now,
                 entryError = err,
                 partialData = t\<rparr>;
              q = failedQueue st;
              q' = (case findIndex (\<lambda>item. entryTrackId item = entryTrackId failedEntry
                                         \<and> entryPlayedAt item = entryPlayedAt failedEntry) q of
                      Some i \<Rightarrow>
                        q[i := (q ! i)\<lparr>attemptCount := attemptCount (q ! i) + 1,
                                       lastAttempt := lastAttempt failedEntry,
                                       entryError := err\<rparr>]
                    | None \<Rightarrow> q @ [failedEntry])
          in saveState (st\<lparr>failedQueue := q'\<rparr>) (setSharedQueue og q' w))"

definition getFailedQueue :: "world \<Rightarrow> error + entry list" where
  "getFailedQueue w = (case loadState w of Inl e \<Rightarrow> Inl e | Inr (st, og) \<Rightarrow> Inr (failedQueue st))"

definition clearFromFailedQueue :: "string option \<Rightarrow> string option \<Rightarrow> world \<Rightarrow> error option \<times> world" where
  \<comment> \<open>\<open>filter\<close> builds a new array, so nothing is changed in place\<close>
  "clearFromFailedQueue tid pa w =
     (case loadState w of
        Inl e \<Rightarrow> (Some e, w)
      | Inr (st, og) \<Rightarrow>
          let originalLength = length (failedQueue st);
              q' = filter (\<lambda>item. \<not> (entryTrackId item = tid \<and> entryPlayedAt item = pa)) (failedQueue st);
              removed = int originalLength - int (length q')
          in if removed > 0 then saveState (st\<lparr>failedQueue := q'\<rparr>) w else (None, w))"

definition updateStats :: "int \<Rightarrow> int \<Rightarrow> string \<Rightarrow> world \<Rightarrow> error option \<times> world" where
  "updateStats sc fc now w =
     (case loadState w of
        Inl e \<Rightarrow> (Some e, w)
      | Inr (st, og) \<Rightarrow>
          let s' = \<lparr>lastRun = Some now,
                    successCount = successCount (stats st) + sc,
                    failureCount = failureCount (stats st) + fc\<rparr>
          in saveState (st\<lparr>stats := s'\<rparr>) (setSharedStats og s' w))"

definition getStats :: "world \<Rightarrow> error + run_stats" where
  "getStats w = (case loadState w of Inl e \<Rightarrow> Inl e | Inr (st, og) \<Rightarrow> Inr (stats st))"

section \<open>Metrics and alerting: their writes to the state document\<close>

text \<open>
  Both modules keep a sub-document in the state document and change it by
  \<open>loadState\<close>, one assignment (\<open>state.metrics = ...\<close> or \<open>state.alerts = ...\<close>) and
  \<open>saveState\<close>. The value they compute from the old sub-document is given by the caller.
\<close>

definition startExecution :: "world \<Rightarrow> world" where
  "startExecution w = w\<lparr>memory := (memory w)\<lparr>executionStarted := True\<rparr>\<rparr>"

definition saveMetricsState :: "json \<Rightarrow> world \<Rightarrow> error option \<times> world" where
  "saveMetricsState ms w =
     (case loadState w of
        Inl e \<Rightarrow> (Some e, w)
      | Inr (st, og) \<Rightarrow> saveState (st\<lparr>metrics := Some ms\<rparr>) w)"

definition endExecution :: "(json option \<Rightarrow> json) \<Rightarrow> world \<Rightarrow> error option \<times> world" where
  "endExecution f w =
     (if \<not> executionStarted (memory w) then (None, w)
      else
        (case loadState w of
           Inl e \<Rightarrow> (Some e, w)
         | Inr (st, og) \<Rightarrow>
             (case saveMetricsState (f (metrics st)) w of
                (Some e, w1) \<Rightarrow> (Some e, w1)
              | (None, w1) \<Rightarrow> (None, w1\<lparr>memory := (memory w1)\<lparr>executionStarted := False\<rparr>\<rparr>))))"

definition saveAlertState :: "json \<Rightarrow> world \<Rightarrow> error option \<times> world" where
  "saveAlertState a w =
     (case loadState w of
        Inl e \<Rightarrow> (Some e, w)
      | Inr (st, og) \<Rightarrow> saveState (st\<lparr>alerts := Some a\<rparr>) w)"

definition alertWrite :: "(json option \<Rightarrow> json) \<Rightarrow> world \<Rightarrow> error option \<times> world" where
  \<comment> \<open>\<open>getAlertState\<close>, a change of the alert state, \<open>saveAlertState\<close>\<close>
  "alertWrite g w =
     (case loadState w of
        Inl e \<Rightarrow> (Some e, w)
      | Inr (st, og) \<Rightarrow> saveAlertState (g (alerts st)) w)"

fun alertWrites :: "(json option \<Rightarrow> json) list \<Rightarrow> world \<Rightarrow> error option \<times> world" where
  "alertWrites [] w = (None, w)"
| "alertWrites (g # gs) w =
     (case alertWrite g w of
        (Some e, w1) \<Rightarrow> (Some e, w1)
      | (None, w1) \<Rightarrow> alertWrites gs w1)"

definition trackSuccessfulRun :: "(json option \<Rightarrow> json) \<Rightarrow> world \<Rightarrow> error option \<times> world" where
  "trackSuccessfulRun g w = alertWrite g w"

definition trackFailedRun ::
  "(json option \<Rightarrow> json) \<Rightarrow> (json option \<Rightarrow> json) list \<Rightarrow> world \<Rightarrow> error option \<times> world" where
  \<comment> \<open>the counter is incremented and saved; \<open>sent\<close> are the writes of \<open>markAlertSent\<close> when
      \<open>alertConsecutiveFailures\<close> sends an alert\<close>
  "trackFailedRun g sent w =
     (case alertWrite g w of
        (Some e, w1) \<Rightarrow> (Some e, w1)
      | (None, w1) \<Rightarrow> alertWrites sent w1)"

definition checkAlertThresholds :: "(json option \<Rightarrow> json) list \<Rightarrow> world \<Rightarrow> error option \<times> world" where
  "checkAlertThresholds sent w = alertWrites sent w"

section \<open>The logging run (api/log-spotify.js)\<close>

text \<open>
  What the run receives from outside: the answers of the Spotify and Sheets clients, the
  outcome of enriching each track (\<open>Some msg\<close>: the calls threw with that message), the
  clock, and what the metrics and alerting modules write.
\<close>

record log_env =
  dateParse :: dateParser
  recentlyPlayed :: "error + play_item list option"
  listeningLog :: "error + row list"
  enrichError :: "play_item \<Rightarrow> string option"
  appendError :: "error option"
  nowISO :: string
  metricsUpdate :: "json option \<Rightarrow> json"
  thresholdAlerts :: "(json option \<Rightarrow> json) list"
  successUpdate :: "json option \<Rightarrow> json"
  failureUpdate :: "json option \<Rightarrow> json"
  failureAlerts :: "(json option \<Rightarrow> json) list"

datatype call =
    UpdateLastProcessedCall play_item
  | AddToFailedQueueCall play_item string
  | UpdateStatsCall int int

datatype response = Status200 string | Status500 error | Rejected error

definition formatTimestampThrows :: "dateParser \<Rightarrow> play_item \<Rightarrow> bool" where
  \<comment> \<open>\<open>formatTimestamp(track.played_at || ...)\<close> of lib/data-formatter.js: a missing or empty
      \<open>played_at\<close> is replaced by the current time; \<open>toISOString()\<close> of an invalid date throws
      a RangeError\<close>
  "formatTimestampThrows D t = (truthy (played_at t) \<and> getTime D (played_at t) = None)"

fun enrichTracks ::
  "dateParser \<Rightarrow> (play_item \<Rightarrow> string option) \<Rightarrow> play_item list
     \<Rightarrow> error + ((play_item \<times> string) list \<times> int \<times> int)" where
  \<comment> \<open>Step 6: the failed tracks, \<open>successCount\<close> and \<open>failureCount\<close>. With \<open>track: null\<close> the
      \<open>try\<close> block throws a TypeError and so does \<open>track.track.name\<close> in its \<open>catch\<close> block.
      With a \<open>played_at\<close> that does not parse, \<open>formatTrackForLogging\<close> throws a RangeError in
      the \<open>try\<close> block (if the API calls have not thrown before) and so does
      \<open>createErrorPlaceholder\<close> in the \<open>catch\<close> block. Both leave the loop for the handler's
      \<open>catch\<close>.\<close>
  "enrichTracks D f [] = Inr ([], 0, 0)"
| "enrichTracks D f (t # ts) =
     (case track t of
        None \<Rightarrow> Inl (ApiError ''TypeError'')
      | Some tr \<Rightarrow>
          if formatTimestampThrows D t then Inl (ApiError ''RangeError'')
          else
            (case enrichTracks D f ts of
               Inl e \<Rightarrow> Inl e
             | Inr (failedTracks, sc, fc) \<Rightarrow>
                 (case f t of
                    None \<Rightarrow> Inr (failedTracks, sc + 1, fc)
                  | Some msg \<Rightarrow> Inr ((t, msg) # failedTracks, sc, fc + 1))))"

fun addAllToFailedQueue ::
  "(play_item \<times> string) list \<Rightarrow> string \<Rightarrow> world \<Rightarrow> error option \<times> call list \<times> world" where
  "addAllToFailedQueue [] now w = (None, [], w)"
| "addAllToFailedQueue ((t, msg) # rest) now w =
     (case addToFailedQueue t msg now w of
        (Some e, w1) \<Rightarrow> (Some e, [AddToFailedQueueCall t msg], w1)
      | (None, w1) \<Rightarrow>
          (case addAllToFailedQueue rest now w1 of
             (r, cs, w2) \<Rightarrow> (r, AddToFailedQueueCall t msg # cs, w2)))"

definition updateStateStep ::
  "dateParser \<Rightarrow> play_item list \<Rightarrow> (play_item \<times> string) list \<Rightarrow> int \<Rightarrow> int \<Rightarrow> string \<Rightarrow> world
     \<Rightarrow> error option \<times> call list \<times> world" where
  \<comment> \<open>Step 9, with the calls it makes to the state manager, in order\<close>
  "updateStateStep D uniqueTracks failedTracks sc fc now w =
     (let (r1, cs1, w1) =
            (case getMostRecentTrack D (Some uniqueTracks) of
               None \<Rightarrow> (None, [], w)
             | Some mostRecent \<Rightarrow>
                 (case updateLastProcessed mostRecent now w of
                    (r, w') \<Rightarrow> (r, [UpdateLastProcessedCall mostRecent], w')))
      in case r1 of
           Some e \<Rightarrow> (Some e, cs1, w1)
         | None \<Rightarrow>
             (case addAllToFailedQueue failedTracks now w1 of
                (Some e, cs2, w2) \<Rightarrow> (Some e, cs1 @ cs2, w2)
              | (None, cs2, w2) \<Rightarrow>
                  (case updateStats sc fc now w2 of
                     (r, w3) \<Rightarrow> (r, cs1 @ cs2 @ [UpdateStatsCall sc fc], w3))))"

definition finalizeStep :: "log_env \<Rightarrow> world \<Rightarrow> error option \<times> world" where
  \<comment> \<open>Step 10: \<open>endExecution\<close>, \<open>checkAlertThresholds\<close>, \<open>trackSuccessfulRun\<close>\<close>
  "finalizeStep E w =
     (case endExecution (metricsUpdate E) w of
        (Some e, w1) \<Rightarrow> (Some e, w1)
      | (None, w1) \<Rightarrow>
          (case checkAlertThresholds (thresholdAlerts E) w1 of
             (Some e, w2) \<Rightarrow> (Some e, w2)
           | (None, w2) \<Rightarrow> trackSuccessfulRun (successUpdate E) w2))"

definition catchPath :: "log_env \<Rightarrow> error \<Rightarrow> call list \<Rightarrow> world \<Rightarrow> response \<times> call list \<times> world" where
  \<comment> \<open>the \<open>catch\<close> block: \<open>endExecution\<close>, \<open>trackFailedRun\<close>, then the 500 response; an
      exception thrown here leaves the handler\<close>
  "catchPath E err cs w =
     (case endExecution (metricsUpdate E) w of
        (Some e, w1) \<Rightarrow> (Rejected e, cs, w1)
      | (None, w1) \<Rightarrow>
          (case trackFailedRun (failureUpdate E) (failureAlerts E) w1 of
             (Some e, w2) \<Rightarrow> (Rejected e, cs, w2)
           | (None, w2) \<Rightarrow> (Status500 err, cs, w2)))"

datatype gathered =
    EarlyReturn string
  | Thrown error
  | Enriched "play_item list" "(play_item \<times> string) list" int int

definition gatherStep :: "log_env \<Rightarrow> world \<Rightarrow> gathered" where
  \<comment> \<open>Steps 1 to 7, which only read: an early 200 response, an exception, or
      \<open>uniqueTracks\<close>, \<open>failedTracks\<close>, \<open>successCount\<close> and \<open>failureCount\<close>. The result of
      \<open>reconcileState\<close> is assigned to \<open>state\<close> and not read again.\<close>
  "gatherStep E w =
     (let D = dateParse E
      in (case loadState w of
            Inl e \<Rightarrow> Thrown e
          | Inr (state, og) \<Rightarrow>
         (case getStats w of
            Inl e \<Rightarrow> Thrown e
          | Inr runStats \<Rightarrow>
         (case recentlyPlayed E of
            Inl e \<Rightarrow> Thrown e
          | Inr items \<Rightarrow>
              let tracks = (case items of None \<Rightarrow> [] | Some xs \<Rightarrow> xs)
              in if length tracks = 0 then EarlyReturn ''No recent tracks to process''
                 else
                   let filteredTracks = filterNewPlays D (Some tracks) (Some state);
                       sortedTracks = sortTracksByTimestamp D filteredTracks
                   in if length filteredTracks = 0 then EarlyReturn ''No new plays to log''
                      else
                        (case listeningLog E of
                           Inl e \<Rightarrow> Thrown e
                         | Inr sheetRows \<Rightarrow>
                             let reconciled = reconcileState D (Some sheetRows) (Some state);
                                 uniqueTracks = filterDuplicatesAgainstSheet D (Some sortedTracks) (Some sheetRows)
                             in if length uniqueTracks = 0 then EarlyReturn ''All tracks already logged''
                                else
                                  (case enrichTracks D (enrichError E) uniqueTracks of
                                     Inl e \<Rightarrow> Thrown e
                                   | Inr (failedTracks, sc, fc) \<Rightarrow>
                                       Enriched uniqueTracks failedTracks sc fc))))))"

definition logHandler :: "log_env \<Rightarrow> world \<Rightarrow> response \<times> call list \<times> world" where
  \<comment> \<open>the handler: its response, its calls to \<open>updateLastProcessed\<close>, \<open>addToFailedQueue\<close>
      and \<open>updateStats\<close>, and the world it leaves\<close>
  "logHandler E w0 =
     (let w = startExecution w0
      in (case gatherStep E w of
            EarlyReturn msg \<Rightarrow> (Status200 msg, [], w)
          | Thrown e \<Rightarrow> catchPath E e [] w
          | Enriched uniqueTracks failedTracks sc fc \<Rightarrow>
              (case appendError E of
                 Some e \<Rightarrow> catchPath E e [] w
               | None \<Rightarrow>
                   (case updateStateStep (dateParse E) uniqueTracks failedTracks sc fc (nowISO E) w of
                      (Some e, cs, w1) \<Rightarrow> catchPath E e cs w1
                    | (None, cs, w1) \<Rightarrow>
                        (case finalizeStep E w1 of
                           (Some e, w2) \<Rightarrow> catchPath E e cs w2
                         | (None, w2) \<Rightarrow> (Status200 ''Logging complete'', cs, w2))))))"

section \<open>Retrying failed tracks (api/retry-failed.js)\<close>




definition isReadyForRetry :: "dateParser \<Rightarrow> int \<Rightarrow> entry \<Rightarrow> bool" where
  \<comment> \<open>\<open>now\<close> is \<open>Date.now()\<close>\<close>
  "isReadyForRetry D now failedEntry =
     (let lastAttemptMs = getTime D (lastAttempt failedEntry);
          timeSinceLastAttempt = num_sub (Some now) lastAttemptMs
      in if attemptCount failedEntry = 1 then num_ge timeSinceLastAttempt (Some 3600000)
         else if attemptCount failedEntry = 2 then num_ge timeSinceLastAttempt (Some 86400000)
         else False)"













section \<open>Sample inputs\<close>

definition sampleDates :: dateParser where
  \<comment> \<open>\<open>new Date(s).getTime()\<close> on the timestamps used in the examples\<close>
  "sampleDates s =
     map_of [(''2025-01-01T00:00:00.000Z'', 1735689600000),
             (''2025-01-01T00:00:10.000Z'', 1735689610000),
             (''2025-01-01T00:01:00.000Z'', 1735689660000),
             (''2025-01-01T00:02:00.000Z'', 1735689720000),
             (''2025-01-01T01:00:00.000Z'', 1735693200000),
             (''2025-01-02T00:00:00.000Z'', 1735776000000)] s"

definition sampleTrack :: "string \<Rightarrow> int \<Rightarrow> string \<Rightarrow> play_item" where
  \<comment> \<open>an item with the given track id, catalog duration and \<open>played_at\<close>\<close>
  "sampleTrack i d t =
     \<lparr>track = Some \<lparr>track_id = Some i, track_name = Some ''Song'', duration_ms = Some d\<rparr>,
      played_at = Some t\<rparr>"

definition sampleMarker :: "string \<Rightarrow> string \<Rightarrow> marker" where
  \<comment> \<open>the marker \<open>updateLastProcessed\<close> writes for a play of track \<open>i\<close> at \<open>t\<close>\<close>
  "sampleMarker i t =
     \<lparr>trackId = Some i, trackName = None, timestamp = Some ''2025-01-02T00:00:00.000Z'',
      playedAt = Some t\<rparr>"

definition sampleDoc :: "marker option \<Rightarrow> entry list \<Rightarrow> doc" where
  "sampleDoc m q = \<lparr>lastProcessed = m, failedQueue = q, stats = zeroStats, metrics = None, alerts = None\<rparr>"

definition sampleRow :: "string \<Rightarrow> string \<Rightarrow> row" where
  \<comment> \<open>a data row of the Listening Log: timestamp in column 0, track id in column 7\<close>
  "sampleRow t i = [t, ''Song'', ''Artist'', ''Album'', ''180000'', ''180000'', ''100'', i]"

definition sampleEntry :: "string \<Rightarrow> string \<Rightarrow> int \<Rightarrow> string \<Rightarrow> entry" where
  "sampleEntry i t n la =
     \<lparr>entryTrackId = Some i, entryTrackName = Some ''Song'', entryPlayedAt = Some t,
      attemptCount = n, lastAttempt = Some la, entryError = ''timeout'',
      partialData = sampleTrack i 180000 t\<rparr>"

definition localEnv :: procenv where
  \<comment> \<open>a development machine: no Vercel variables, so the file backend is selected\<close>
  "localEnv = \<lparr>USE_KV = None, VERCEL_ENV = None, KV_REST_API_URL = None, KV_REST_API_TOKEN = None\<rparr>"

definition emptyKV :: kvstore where
  "emptyKV = \<lparr>kvClientOk = True, kvGetOk = True, kvSetOk = True, kvStateFull = None,
              kvLastProcessed = None, kvFailedQueue = None, kvStats = None\<rparr>"

definition vercelEnv :: procenv where
  \<comment> \<open>a Vercel deployment with KV credentials, so the KV backend is selected\<close>
  "vercelEnv = \<lparr>USE_KV = None, VERCEL_ENV = Some ''production'',
                 KV_REST_API_URL = Some ''https://kv.example'', KV_REST_API_TOKEN = Some ''token''\<rparr>"

definition kvWorld :: "doc option \<Rightarrow> bool \<Rightarrow> entry list \<Rightarrow> world" where
  \<comment> \<open>a process on the KV backend: the document saved under the four keys (if any), whether
      \<open>kv.get\<close> answers, and the current contents of the \<open>failedQueue\<close> array of
      \<open>DEFAULT_STATE\<close> (\<open>[]\<close> in a freshly started process); \<open>kv.set\<close> works\<close>
  "kvWorld d getOk shared =
     \<lparr>env = vercelEnv,
      memory = \<lparr>DEFAULT_failedQueue = shared, DEFAULT_stats = zeroStats, executionStarted = False\<rparr>,
      disk = \<lparr>stateDirOk = True, stateFile = Missing, backupFile = Missing,
              stateFileWritable = True, backupFileWritable = True\<rparr>,
      kv = \<lparr>kvClientOk = True, kvGetOk = getOk, kvSetOk = True, kvStateFull = d,
             kvLastProcessed = map_option lastProcessed d,
             kvFailedQueue = map_option failedQueue d,
             kvStats = map_option stats d\<rparr>\<rparr>"

definition localWorld :: "filedata \<Rightarrow> filedata \<Rightarrow> bool \<Rightarrow> world" where
  \<comment> \<open>a freshly started process on the file backend: the two files, and whether they can be written\<close>
  "localWorld f b writable =
     \<lparr>env = localEnv, memory = freshMemory,
      disk = \<lparr>stateDirOk = True, stateFile = f, backupFile = b,
              stateFileWritable = writable, backupFileWritable = writable\<rparr>,
      kv = emptyKV\<rparr>"

definition sampleLogEnv ::
  "play_item list \<Rightarrow> row list \<Rightarrow> (play_item \<Rightarrow> string option) \<Rightarrow> error option \<Rightarrow> log_env" where
  \<comment> \<open>a logging run that receives these items and sheet rows, with these enrichment and
      append outcomes\<close>
  "sampleLogEnv items rows enrich app =
     \<lparr>dateParse = sampleDates,
      recentlyPlayed = Inr (Some items),
      listeningLog = Inr rows,
      enrichError = enrich,
      appendError = app,
      nowISO = ''2025-01-02T00:00:00.000Z'',
      metricsUpdate = (\<lambda>old. ''{executions: 1}''),
      thresholdAlerts = [],
      successUpdate = (\<lambda>old. ''{consecutiveFailures: 0}''),
      failureUpdate = (\<lambda>old. ''{consecutiveFailures: 1}''),
      failureAlerts = []\<rparr>"



section \<open>Observations used in the statements\<close>

definition storedDoc :: "world \<Rightarrow> doc option" where
  \<comment> \<open>the document held by the selected backend: the state file when it parses, or the
      value under \<open>state:full\<close>\<close>
  "storedDoc w =
     (if shouldUseKV (env w) then kvStateFull (kv w)
      else (case stateFile (disk w) of Doc d \<Rightarrow> Some d | _ \<Rightarrow> None))"

definition storedQueue :: "world \<Rightarrow> entry list" where
  \<comment> \<open>the \<open>failedQueue\<close> of the stored document\<close>
  "storedQueue w = (case storedDoc w of None \<Rightarrow> [] | Some d \<Rightarrow> failedQueue d)"

definition kvReadsOk :: "world \<Rightarrow> bool" where
  \<comment> \<open>when the KV backend is selected, its client loads and \<open>kv.get\<close> answers\<close>
  "kvReadsOk w = (shouldUseKV (env w) \<longrightarrow> kvClientOk (kv w) \<and> kvGetOk (kv w))"

definition storeReadable :: "world \<Rightarrow> bool" where
  \<comment> \<open>\<open>loadState\<close> gets what is persisted: on the file backend the state file is absent or
      is read and parsed (so the backup is not consulted); on the KV backend the client loads
      and \<open>kv.get\<close> answers\<close>
  "storeReadable w =
     (if shouldUseKV (env w) then kvClientOk (kv w) \<and> kvGetOk (kv w)
      else stateFile (disk w) \<noteq> Unreadable \<and> stateFile (disk w) \<noteq> Garbage)"

definition storeWritable :: "world \<Rightarrow> bool" where
  \<comment> \<open>\<open>saveState\<close> can write: the state directory is there and \<open>fs.writeFile\<close> on the state
      file succeeds, or the KV client loads and \<open>kv.set\<close> succeeds\<close>
  "storeWritable w =
     (if shouldUseKV (env w) then kvClientOk (kv w) \<and> kvSetOk (kv w)
      else stateDirOk (disk w) \<and> stateFileWritable (disk w))"

definition otherEntry :: "string option \<Rightarrow> string option \<Rightarrow> entry \<Rightarrow> bool" where
  \<comment> \<open>the entry does not match both \<open>trackId\<close> and \<open>playedAt\<close>\<close>
  "otherEntry tid pa item = (\<not> (entryTrackId item = tid \<and> entryPlayedAt item = pa))"





section \<open>Evaluation rules\<close>

lemmas js_defs = truthy_def getTime_def num_sub_def num_abs_def num_lt_def num_le_def num_gt_def num_ge_def

lemmas sample_defs = sampleDates_def sampleTrack_def sampleMarker_def sampleDoc_def sampleRow_def
  sampleEntry_def zeroStats_def

lemmas filter_defs = filterNewPlays_def keepPlay_def isValidPlay_def isDuplicate_def item_id_def
  item_duration_def lastProcessedTime_def state_marker_def MIN_PLAY_DURATION_MS_def

lemmas sheet_defs = reconcileState_def findLastProcessedInSheet_def cell_def

lemmas store_defs = loadState_def loadStateLocal_def loadStateKV_def saveState_def saveStateLocal_def
  saveStateKV_def ensureStateDir_def DEFAULT_STATE_def readableFile_def
  setSharedQueue_def setSharedStats_def

lemmas world_defs = localWorld_def localEnv_def emptyKV_def freshMemory_def kvWorld_def vercelEnv_def

lemmas state_defs = updateLastProcessed_def addToFailedQueue_def clearFromFailedQueue_def updateStats_def
  getFailedQueue_def getStats_def orElse_def item_name_def item_id_def storedDoc_def storedQueue_def


lemmas log_defs = logHandler_def gatherStep_def catchPath_def finalizeStep_def updateStateStep_def
  endExecution_def saveMetricsState_def saveAlertState_def alertWrite_def trackFailedRun_def
  trackSuccessfulRun_def checkAlertThresholds_def startExecution_def sampleLogEnv_def
  getMostRecentTrack_def sortTracksByTimestamp_def timeLE_def filterDuplicatesAgainstSheet_def
  isTrackInSheet_def formatTimestampThrows_def

section \<open>The play filter\<close>

lemma getTime_Some: "getTime D s = Some a \<Longrightarrow> truthy s"
  by (auto simp: getTime_def truthy_def split: option.splits if_splits)

text \<open>
  Claim C1, as the code has it. Take a state whose \<open>lastProcessed\<close> marker has a non-empty
  \<open>trackId\<close> and an event of the list with that track id, both timestamps parseable.
  If the timestamps differ by less than 30000 ms, \<open>filterNewPlays\<close> excludes the event.
  If they differ by at least 30000 ms, the event is retained exactly when its catalog
  duration is positive and its timestamp is later than the marker's: an older play of the
  same track is rejected by the "newer than last processed" rule.
\<close>

theorem filterNewPlays_same_track:
  assumes "lastProcessed st = Some m" and "trackId m = Some i" and "i \<noteq> []"
    and "e \<in> set events" and "item_id e = Some i"
    and "getTime D (played_at e) = Some a" and "getTime D (playedAt m) = Some b"
  shows "(\<bar>a - b\<bar> < 30000 \<longrightarrow> e \<notin> set (filterNewPlays D (Some events) (Some st)))
       \<and> (\<bar>a - b\<bar> \<ge> 30000 \<longrightarrow>
            (e \<in> set (filterNewPlays D (Some events) (Some st)) \<longleftrightarrow> 0 < item_duration e \<and> b < a))"
proof -
  have tr: "truthy (playedAt m)" using assms(7) by (rule getTime_Some)
  have dup: "isDuplicate D e (Some m) = (\<bar>a - b\<bar> < 30000)"
    using assms by (simp add: isDuplicate_def truthy_def num_abs_def num_sub_def num_lt_def MIN_PLAY_DURATION_MS_def)
  have lpt: "lastProcessedTime D (Some st) = Some b"
    using assms tr by (simp add: lastProcessedTime_def)
  have valid: "isValidPlay e MIN_PLAY_DURATION_MS = (0 < item_duration e)"
    by (auto simp: isValidPlay_def MIN_PLAY_DURATION_MS_def Let_def)
  have keep: "keepPlay D (Some st) e = (0 < item_duration e \<and> \<not> \<bar>a - b\<bar> < 30000 \<and> b < a)"
    using assms dup lpt valid by (auto simp: keepPlay_def state_marker_def num_le_def)
  have mem: "e \<in> set (filterNewPlays D (Some events) (Some st)) = keepPlay D (Some st) e"
    using assms(4) by (auto simp: filterNewPlays_def)
  show ?thesis unfolding mem keep by auto
qed

theorem filterNewPlays_same_track_witness:
  "lastProcessed (sampleDoc (Some (sampleMarker ''abc'' ''2025-01-01T00:00:00.000Z'')) [])
     = Some (sampleMarker ''abc'' ''2025-01-01T00:00:00.000Z'')
   \<and> trackId (sampleMarker ''abc'' ''2025-01-01T00:00:00.000Z'') = Some ''abc''
   \<and> item_id (sampleTrack ''abc'' 180000 ''2025-01-01T00:01:00.000Z'') = Some ''abc''
   \<and> getTime sampleDates (played_at (sampleTrack ''abc'' 180000 ''2025-01-01T00:01:00.000Z'')) = Some 1735689660000
   \<and> getTime sampleDates (playedAt (sampleMarker ''abc'' ''2025-01-01T00:00:00.000Z'')) = Some 1735689600000
   \<and> sampleTrack ''abc'' 180000 ''2025-01-01T00:01:00.000Z''
        \<in> set (filterNewPlays sampleDates
                  (Some [sampleTrack ''abc'' 180000 ''2025-01-01T00:00:10.000Z'',
                         sampleTrack ''abc'' 180000 ''2025-01-01T00:01:00.000Z''])
                  (Some (sampleDoc (Some (sampleMarker ''abc'' ''2025-01-01T00:00:00.000Z'')) [])))"
  using filterNewPlays_same_track
          [of "sampleDoc (Some (sampleMarker ''abc'' ''2025-01-01T00:00:00.000Z'')) []"
              "sampleMarker ''abc'' ''2025-01-01T00:00:00.000Z''" "''abc''"
              "sampleTrack ''abc'' 180000 ''2025-01-01T00:01:00.000Z''"
              "[sampleTrack ''abc'' 180000 ''2025-01-01T00:00:10.000Z'',
                sampleTrack ''abc'' 180000 ''2025-01-01T00:01:00.000Z'']"
              sampleDates 1735689660000 1735689600000]
  by (simp add: sample_defs js_defs item_id_def item_duration_def)

text \<open>
  The claim as written fails twice. A play of the marker's track one minute before the
  marker differs by 60000 ms and is excluded; and with an empty \<open>trackId\<close> in the marker
  \<open>isDuplicate\<close> answers \<open>false\<close>, so a play 10 s after the marker with the same (empty)
  track id is retained.
\<close>

theorem filterNewPlays_same_track_counterexample:
  "item_id (sampleTrack ''abc'' 180000 ''2025-01-01T00:01:00.000Z'')
     = trackId (sampleMarker ''abc'' ''2025-01-01T00:02:00.000Z'')
   \<and> getTime sampleDates (played_at (sampleTrack ''abc'' 180000 ''2025-01-01T00:01:00.000Z'')) = Some 1735689660000
   \<and> getTime sampleDates (playedAt (sampleMarker ''abc'' ''2025-01-01T00:02:00.000Z'')) = Some 1735689720000
   \<and> \<bar>1735689660000 - 1735689720000\<bar> \<ge> (30000::int)
   \<and> sampleTrack ''abc'' 180000 ''2025-01-01T00:01:00.000Z''
        \<notin> set (filterNewPlays sampleDates
                  (Some [sampleTrack ''abc'' 180000 ''2025-01-01T00:01:00.000Z''])
                  (Some (sampleDoc (Some (sampleMarker ''abc'' ''2025-01-01T00:02:00.000Z'')) [])))
   \<and> item_id (sampleTrack [] 180000 ''2025-01-01T00:00:10.000Z'')
     = trackId (sampleMarker [] ''2025-01-01T00:00:00.000Z'')
   \<and> sampleTrack [] 180000 ''2025-01-01T00:00:10.000Z''
        \<in> set (filterNewPlays sampleDates
                  (Some [sampleTrack [] 180000 ''2025-01-01T00:00:10.000Z''])
                  (Some (sampleDoc (Some (sampleMarker [] ''2025-01-01T00:00:00.000Z'')) [])))"
  by (simp add: sample_defs js_defs filter_defs)

text \<open>
  Claim C9: an event whose track is missing, whose \<open>duration_ms\<close> is missing or whose
  \<open>duration_ms\<close> is at most zero is never in the result of \<open>filterNewPlays\<close>, whatever
  the list and the state.
\<close>

theorem filterNewPlays_rejects_nonpositive_duration:
  assumes "case track e of None \<Rightarrow> True
           | Some tr \<Rightarrow> (case duration_ms tr of None \<Rightarrow> True | Some d \<Rightarrow> d \<le> 0)"
  shows "e \<notin> set (filterNewPlays D recentTracks st)"
proof -
  have "item_duration e \<le> 0"
    using assms by (auto simp: item_duration_def split: option.splits)
  then have "\<not> keepPlay D st e"
    by (simp add: keepPlay_def isValidPlay_def MIN_PLAY_DURATION_MS_def Let_def)
  then show ?thesis
    by (auto simp: filterNewPlays_def split: option.splits)
qed

theorem filterNewPlays_rejects_nonpositive_duration_witness:
  "(case track (sampleTrack ''abc'' 0 ''2025-01-01T00:01:00.000Z'') of None \<Rightarrow> True
    | Some tr \<Rightarrow> (case duration_ms tr of None \<Rightarrow> True | Some d \<Rightarrow> d \<le> 0))
   \<and> sampleTrack ''abc'' 0 ''2025-01-01T00:01:00.000Z''
        \<notin> set (filterNewPlays sampleDates
                  (Some [sampleTrack ''abc'' 0 ''2025-01-01T00:01:00.000Z'',
                         sampleTrack ''xyz'' 180000 ''2025-01-01T00:02:00.000Z''])
                  (Some (sampleDoc None [])))
   \<and> filterNewPlays sampleDates
         (Some [sampleTrack ''abc'' 0 ''2025-01-01T00:01:00.000Z'',
                sampleTrack ''xyz'' 180000 ''2025-01-01T00:02:00.000Z''])
         (Some (sampleDoc None []))
       = [sampleTrack ''xyz'' 180000 ''2025-01-01T00:02:00.000Z'']"
  using filterNewPlays_rejects_nonpositive_duration
          [of "sampleTrack ''abc'' 0 ''2025-01-01T00:01:00.000Z''" sampleDates
              "Some [sampleTrack ''abc'' 0 ''2025-01-01T00:01:00.000Z'',
                     sampleTrack ''xyz'' 180000 ''2025-01-01T00:02:00.000Z'']"
              "Some (sampleDoc None [])"]
  by (simp add: sample_defs js_defs filter_defs)

section \<open>Reconciliation\<close>

lemma num_gt_irrefl: "\<not> num_gt a a"
  by (simp add: num_gt_def num_lt_def split: option.splits)

text \<open>
  Claim C4: \<open>reconcileState\<close> is idempotent: reconciling the result of a reconciliation
  against the same sheet gives that result again, for every sheet and every local state
  (also \<open>null\<close>).
\<close>

theorem reconcileState_idempotent:
  "reconcileState D sheetData (reconcileState D sheetData localState) = reconcileState D sheetData localState"
  by (auto simp: reconcileState_def Let_def num_gt_irrefl split: option.splits)

theorem reconcileState_idempotent_witness:
  "reconcileState sampleDates
     (Some [[''Timestamp''], sampleRow ''2025-01-01T00:02:00.000Z'' ''xyz''])
     (reconcileState sampleDates
        (Some [[''Timestamp''], sampleRow ''2025-01-01T00:02:00.000Z'' ''xyz''])
        (Some (sampleDoc (Some (sampleMarker ''abc'' ''2025-01-01T00:01:00.000Z'')) [])))
   = reconcileState sampleDates
       (Some [[''Timestamp''], sampleRow ''2025-01-01T00:02:00.000Z'' ''xyz''])
       (Some (sampleDoc (Some (sampleMarker ''abc'' ''2025-01-01T00:01:00.000Z'')) []))
   \<and> reconcileState sampleDates
       (Some [[''Timestamp''], sampleRow ''2025-01-01T00:02:00.000Z'' ''xyz''])
       (Some (sampleDoc (Some (sampleMarker ''abc'' ''2025-01-01T00:01:00.000Z'')) []))
     = Some (sampleDoc (Some \<lparr>trackId = Some ''xyz'', trackName = Some ''Song'',
                               timestamp = Some ''2025-01-01T00:02:00.000Z'',
                               playedAt = Some ''2025-01-01T00:02:00.000Z''\<rparr>) [])"
  using reconcileState_idempotent
          [of sampleDates "Some [[''Timestamp''], sampleRow ''2025-01-01T00:02:00.000Z'' ''xyz'']"
              "Some (sampleDoc (Some (sampleMarker ''abc'' ''2025-01-01T00:01:00.000Z'')) [])"]
  by (simp add: sample_defs js_defs sheet_defs Let_def)

text \<open>
  Claim C5: when the final row of the sheet yields a marker (its track id and timestamp
  cells are non-empty) and the local state has a \<open>lastProcessed\<close> marker, then: if the row's
  timestamp is strictly newer than the local \<open>playedAt\<close>, the result has the row's marker as
  \<open>lastProcessed\<close> and the local \<open>failedQueue\<close> and \<open>stats\<close>; if the local \<open>playedAt\<close> is newer
  or equal, the result is the local state.
\<close>

theorem reconcileState_newer_wins:
  assumes "findLastProcessedInSheet (Some rows) = Some sm"
    and "lastProcessed ls = Some lp"
  shows "trackId sm = cell (last rows) 7 \<and> playedAt sm = cell (last rows) 0
       \<and> (num_gt (getTime D (playedAt sm)) (getTime D (playedAt lp)) \<longrightarrow>
            (\<exists>r. reconcileState D (Some rows) (Some ls) = Some r
                 \<and> lastProcessed r = Some sm
                 \<and> failedQueue r = failedQueue ls \<and> stats r = stats ls))
       \<and> (num_ge (getTime D (playedAt lp)) (getTime D (playedAt sm)) \<longrightarrow>
            reconcileState D (Some rows) (Some ls) = Some ls)"
proof -
  have row: "trackId sm = cell (last rows) 7 \<and> playedAt sm = cell (last rows) 0"
    using assms(1) by (auto simp: findLastProcessedInSheet_def Let_def split: if_splits)
  have rest: "(num_gt (getTime D (playedAt sm)) (getTime D (playedAt lp)) \<longrightarrow>
            (\<exists>r. reconcileState D (Some rows) (Some ls) = Some r
                 \<and> lastProcessed r = Some sm
                 \<and> failedQueue r = failedQueue ls \<and> stats r = stats ls))
       \<and> (num_ge (getTime D (playedAt lp)) (getTime D (playedAt sm)) \<longrightarrow>
            reconcileState D (Some rows) (Some ls) = Some ls)"
    using assms
    by (auto simp: reconcileState_def Let_def num_gt_def num_ge_def num_lt_def num_le_def split: option.splits)
  from row rest show ?thesis by blast
qed

theorem reconcileState_newer_wins_witness:
  "findLastProcessedInSheet (Some [[''Timestamp''], sampleRow ''2025-01-01T00:02:00.000Z'' ''xyz''])
     = Some \<lparr>trackId = Some ''xyz'', trackName = Some ''Song'',
             timestamp = Some ''2025-01-01T00:02:00.000Z'', playedAt = Some ''2025-01-01T00:02:00.000Z''\<rparr>
   \<and> lastProcessed (sampleDoc (Some (sampleMarker ''abc'' ''2025-01-01T00:01:00.000Z'')) [sampleEntry ''q'' ''2025-01-01T00:00:00.000Z'' 1 ''2025-01-01T00:00:10.000Z''])
     = Some (sampleMarker ''abc'' ''2025-01-01T00:01:00.000Z'')
   \<and> num_gt (getTime sampleDates (Some ''2025-01-01T00:02:00.000Z'')) (getTime sampleDates (Some ''2025-01-01T00:01:00.000Z''))
   \<and> (\<exists>r. reconcileState sampleDates (Some [[''Timestamp''], sampleRow ''2025-01-01T00:02:00.000Z'' ''xyz''])
              (Some (sampleDoc (Some (sampleMarker ''abc'' ''2025-01-01T00:01:00.000Z'')) [sampleEntry ''q'' ''2025-01-01T00:00:00.000Z'' 1 ''2025-01-01T00:00:10.000Z''])) = Some r
          \<and> lastProcessed r = Some \<lparr>trackId = Some ''xyz'', trackName = Some ''Song'',
             timestamp = Some ''2025-01-01T00:02:00.000Z'', playedAt = Some ''2025-01-01T00:02:00.000Z''\<rparr>
          \<and> failedQueue r = [sampleEntry ''q'' ''2025-01-01T00:00:00.000Z'' 1 ''2025-01-01T00:00:10.000Z'']
          \<and> stats r = zeroStats)"
  using reconcileState_newer_wins
          [of "[[''Timestamp''], sampleRow ''2025-01-01T00:02:00.000Z'' ''xyz'']"
              "\<lparr>trackId = Some ''xyz'', trackName = Some ''Song'',
                timestamp = Some ''2025-01-01T00:02:00.000Z'', playedAt = Some ''2025-01-01T00:02:00.000Z''\<rparr>"
              "sampleDoc (Some (sampleMarker ''abc'' ''2025-01-01T00:01:00.000Z'')) [sampleEntry ''q'' ''2025-01-01T00:00:00.000Z'' 1 ''2025-01-01T00:00:10.000Z'']"
              "sampleMarker ''abc'' ''2025-01-01T00:01:00.000Z''" sampleDates]
  by (simp add: sample_defs js_defs sheet_defs Let_def)

section \<open>The retry schedule\<close>

text \<open>
  Claim C8: an entry is ready for retry exactly when its \<open>lastAttempt\<close> parses and the
  time elapsed since then is at least 3600000 ms for \<open>attemptCount = 1\<close>, or at least
  86400000 ms for \<open>attemptCount = 2\<close>; for every other \<open>attemptCount\<close> it is never ready.
\<close>

theorem isReadyForRetry_schedule:
  "isReadyForRetry D now e \<longleftrightarrow>
     (\<exists>t. getTime D (lastAttempt e) = Some t
          \<and> ((attemptCount e = 1 \<and> now - t \<ge> 3600000) \<or> (attemptCount e = 2 \<and> now - t \<ge> 86400000)))"
  by (auto simp: isReadyForRetry_def Let_def num_ge_def num_le_def num_sub_def split: option.splits)

theorem isReadyForRetry_schedule_witness:
  "isReadyForRetry sampleDates 1735693200000 (sampleEntry ''abc'' ''2025-01-01T00:00:00.000Z'' 1 ''2025-01-01T00:00:00.000Z'')
   \<and> \<not> isReadyForRetry sampleDates 1735693199999 (sampleEntry ''abc'' ''2025-01-01T00:00:00.000Z'' 1 ''2025-01-01T00:00:00.000Z'')
   \<and> \<not> isReadyForRetry sampleDates 1735693200000 (sampleEntry ''abc'' ''2025-01-01T00:00:00.000Z'' 2 ''2025-01-01T00:00:00.000Z'')
   \<and> isReadyForRetry sampleDates 1735776000000 (sampleEntry ''abc'' ''2025-01-01T00:00:00.000Z'' 2 ''2025-01-01T00:00:00.000Z'')
   \<and> \<not> isReadyForRetry sampleDates 1735776000000 (sampleEntry ''abc'' ''2025-01-01T00:00:00.000Z'' 3 ''2025-01-01T00:00:00.000Z'')"
  using isReadyForRetry_schedule [of sampleDates 1735693200000 "sampleEntry ''abc'' ''2025-01-01T00:00:00.000Z'' 1 ''2025-01-01T00:00:00.000Z''"]
        isReadyForRetry_schedule [of sampleDates 1735693199999 "sampleEntry ''abc'' ''2025-01-01T00:00:00.000Z'' 1 ''2025-01-01T00:00:00.000Z''"]
        isReadyForRetry_schedule [of sampleDates 1735693200000 "sampleEntry ''abc'' ''2025-01-01T00:00:00.000Z'' 2 ''2025-01-01T00:00:00.000Z''"]
        isReadyForRetry_schedule [of sampleDates 1735776000000 "sampleEntry ''abc'' ''2025-01-01T00:00:00.000Z'' 2 ''2025-01-01T00:00:00.000Z''"]
        isReadyForRetry_schedule [of sampleDates 1735776000000 "sampleEntry ''abc'' ''2025-01-01T00:00:00.000Z'' 3 ''2025-01-01T00:00:00.000Z''"]
  by (simp add: sample_defs js_defs)

section \<open>Loading and saving the state document\<close>

text \<open>
  What \<open>loadStateLocal\<close> (the \<open>loadState\<close> of the file-only module) returns once
  \<open>ensureStateDir\<close> has returned: the parsed state file; a copy of \<open>DEFAULT_STATE\<close> when the
  file does not exist; on any other read or parse error the parsed backup, and a copy of
  \<open>DEFAULT_STATE\<close> when the backup cannot be read or parsed either. It never throws there.
\<close>

lemma loadStateLocal_fallback:
  assumes "stateDirOk (disk w)"
  shows "(stateFile (disk w) = Missing \<longrightarrow> loadStateLocal w = Inr (DEFAULT_STATE w, Shared))
       \<and> (stateFile (disk w) = Doc d \<longrightarrow> loadStateLocal w = Inr (d, Parsed))
       \<and> (stateFile (disk w) \<in> {Unreadable, Garbage} \<longrightarrow>
            (backupFile (disk w) = Doc b \<longrightarrow> loadStateLocal w = Inr (b, Parsed))
          \<and> ((\<forall>x. backupFile (disk w) \<noteq> Doc x) \<longrightarrow> loadStateLocal w = Inr (DEFAULT_STATE w, Shared)))"
  using assms by (auto simp: loadStateLocal_def ensureStateDir_def split: filedata.splits)

text \<open>
  Claim C7 says that without a state file \<open>loadState\<close> returns the zero-valued default
  document. The code returns \<open>{ ...DEFAULT_STATE }\<close>, a shallow copy: its \<open>stats\<close> object and
  its \<open>failedQueue\<close> array are those of \<open>DEFAULT_STATE\<close>, and \<open>updateStats\<close> and
  \<open>addToFailedQueue\<close> change them in place. In a fresh process with no state file
  \<open>loadState\<close> returns the zero-valued document. After \<open>updateStats(1, 0)\<close> in that process,
  a later \<open>loadState\<close> that again finds no state file (the file was deleted, or the write
  had failed) returns \<open>successCount = 1\<close>.
\<close>

theorem loadState_default_not_zero:
  "loadStateLocal (localWorld Missing Missing True) = Inr (sampleDoc None [], Shared)
   \<and> fst (updateStats 1 0 ''2025-01-02T00:00:00.000Z'' (localWorld Missing Missing True)) = None
   \<and> stateFile (disk ((snd (updateStats 1 0 ''2025-01-02T00:00:00.000Z'' (localWorld Missing Missing True)))
                         \<lparr>disk := \<lparr>stateDirOk = True, stateFile = Missing, backupFile = Missing,
                                    stateFileWritable = True, backupFileWritable = True\<rparr>\<rparr>)) = Missing
   \<and> loadStateLocal ((snd (updateStats 1 0 ''2025-01-02T00:00:00.000Z'' (localWorld Missing Missing True)))
                         \<lparr>disk := \<lparr>stateDirOk = True, stateFile = Missing, backupFile = Missing,
                                    stateFileWritable = True, backupFileWritable = True\<rparr>\<rparr>)
       = Inr (\<lparr>lastProcessed = None, failedQueue = [],
                stats = \<lparr>lastRun = Some ''2025-01-02T00:00:00.000Z'', successCount = 1, failureCount = 0\<rparr>,
                metrics = None, alerts = None\<rparr>, Shared)
   \<and> fst (updateStats 1 0 ''2025-01-02T00:00:00.000Z'' (localWorld Missing Missing False)) = Some SaveFailed
   \<and> stateFile (disk (snd (updateStats 1 0 ''2025-01-02T00:00:00.000Z'' (localWorld Missing Missing False)))) = Missing
   \<and> loadStateLocal (snd (updateStats 1 0 ''2025-01-02T00:00:00.000Z'' (localWorld Missing Missing False)))
       = Inr (\<lparr>lastProcessed = None, failedQueue = [],
                stats = \<lparr>lastRun = Some ''2025-01-02T00:00:00.000Z'', successCount = 1, failureCount = 0\<rparr>,
                metrics = None, alerts = None\<rparr>, Shared)"
  by (simp add: updateStats_def store_defs shouldUseKV_def world_defs sampleDoc_def zeroStats_def truthy_def Let_def)

lemma filter_length_less:
  "(int (length xs) - int (length (filter P xs)) > 0) = (\<exists>x \<in> set xs. \<not> P x)"
proof -
  have "length (filter P xs) \<le> length xs" by simp
  moreover have "(length (filter P xs) = length xs) = (\<forall>x \<in> set xs. P x)"
    by (metis filter_id_conv length_filter_less less_irrefl)
  ultimately show ?thesis by (metis diff_gt_0_iff_gt le_neq_implies_less less_irrefl of_nat_less_iff)
qed

lemma saveState_stored:
  "saveState d w = (None, w') \<Longrightarrow> storedDoc w' = Some d \<and> memory w' = memory w \<and> env w' = env w"
  by (auto simp: store_defs storedDoc_def Let_def split: if_splits option.splits)

lemma loadState_stored:
  assumes "kvReadsOk w" and "storedDoc w = Some d"
  shows "loadState w = Inr (d, Parsed) \<or> (\<exists>e. loadState w = Inl e)"
  using assms
  by (auto simp: kvReadsOk_def storedDoc_def loadState_def loadStateLocal_def loadStateKV_def
        ensureStateDir_def split: if_splits filedata.splits)

lemma otherEntry_fun: "(\<lambda>item. \<not> (entryTrackId item = tid \<and> entryPlayedAt item = pa)) = otherEntry tid pa"
  by (rule ext) (simp add: otherEntry_def)

lemma storeReadable_kvReadsOk: "storeReadable w \<Longrightarrow> kvReadsOk w"
  by (simp add: storeReadable_def kvReadsOk_def)

lemma loadState_throws: "loadState w = Inl e \<Longrightarrow> \<not> storeWritable w"
  by (auto simp: loadState_def loadStateKV_def loadStateLocal_def ensureStateDir_def storeWritable_def
        split: if_splits filedata.splits option.splits)

lemma saveState_writable: "storeWritable w \<Longrightarrow> saveState d w = (r, w') \<Longrightarrow> r = None"
  by (auto simp: saveState_def saveStateKV_def saveStateLocal_def ensureStateDir_def storeWritable_def Let_def
        split: if_splits)

lemma saveState_thrown:
  "saveState d w = (Some e, w') \<Longrightarrow> storedDoc w' = storedDoc w \<and> memory w' = memory w"
  by (auto simp: saveState_def saveStateKV_def saveStateLocal_def ensureStateDir_def storedDoc_def Let_def
        split: if_splits)

lemma clearFromFailedQueue_alt:
  "clearFromFailedQueue tid pa w =
     (case loadState w of
        Inl e \<Rightarrow> (Some e, w)
      | Inr (st, og) \<Rightarrow>
          if \<exists>item \<in> set (failedQueue st). \<not> otherEntry tid pa item
          then saveState (st\<lparr>failedQueue := filter (otherEntry tid pa) (failedQueue st)\<rparr>) w
          else (None, w))"
  unfolding clearFromFailedQueue_def otherEntry_fun Let_def filter_length_less ..

text \<open>
  Claim C10, as the code has it. Take a world whose selected backend holds the document
  \<open>d\<close> and can be read. Whatever \<open>clearFromFailedQueue(trackId, playedAt)\<close> returns, the
  document persisted afterwards has the \<open>lastProcessed\<close>, \<open>stats\<close>, \<open>metrics\<close> and \<open>alerts\<close>
  of \<open>d\<close>, and its \<open>failedQueue\<close> is that of \<open>d\<close> or that of \<open>d\<close> without the entries matching
  both \<open>trackId\<close> and \<open>playedAt\<close>; when the call succeeds it is the latter, the other
  entries keeping their order. The call succeeds whenever the backend can be written. When
  no entry of \<open>d\<close> matches, the world is unchanged: nothing is written. The module memory is
  never changed.
\<close>

theorem clearFromFailedQueue_frame:
  assumes stored: "storedDoc w = Some d" and reads: "storeReadable w"
    and run: "clearFromFailedQueue tid pa w = (r, w')"
  shows "(\<exists>d'. storedDoc w' = Some d'
            \<and> lastProcessed d' = lastProcessed d \<and> stats d' = stats d
            \<and> metrics d' = metrics d \<and> alerts d' = alerts d
            \<and> (failedQueue d' = failedQueue d \<or> failedQueue d' = filter (otherEntry tid pa) (failedQueue d))
            \<and> (r = None \<longrightarrow> failedQueue d' = filter (otherEntry tid pa) (failedQueue d)))
       \<and> (storeWritable w \<longrightarrow> r = None)
       \<and> ((\<forall>item \<in> set (failedQueue d). otherEntry tid pa item) \<longrightarrow> w' = w)
       \<and> memory w' = memory w"
proof -
  let ?q = "filter (otherEntry tid pa) (failedQueue d)"
  from loadState_stored[OF storeReadable_kvReadsOk[OF reads] stored] show ?thesis
  proof
    assume "\<exists>e. loadState w = Inl e"
    then obtain e where l: "loadState w = Inl e" by blast
    with run have "r = Some e" "w' = w" by (auto simp: clearFromFailedQueue_alt)
    with stored loadState_throws[OF l] show ?thesis by auto
  next
    assume l: "loadState w = Inr (d, Parsed)"
    show ?thesis
    proof (cases "\<forall>item \<in> set (failedQueue d). otherEntry tid pa item")
      case True
      with run l have "r = None" "w' = w"
        by (auto simp: clearFromFailedQueue_alt)
      moreover from True have "?q = failedQueue d" by simp
      ultimately show ?thesis using stored by auto
    next
      case False
      with run l have s: "saveState (d\<lparr>failedQueue := ?q\<rparr>) w = (r, w')"
        by (auto simp: clearFromFailedQueue_alt)
      show ?thesis
      proof (cases r)
        case None
        with saveState_stored[of "d\<lparr>failedQueue := ?q\<rparr>" w w'] s False show ?thesis by auto
      next
        case (Some e)
        with saveState_thrown[of "d\<lparr>failedQueue := ?q\<rparr>" w e w'] s
          saveState_writable[of w "d\<lparr>failedQueue := ?q\<rparr>" r w'] stored False
        show ?thesis by auto
      qed
    qed
  qed
qed

theorem clearFromFailedQueue_frame_witness:
  "storedDoc (localWorld (Doc (sampleDoc (Some (sampleMarker ''abc'' ''2025-01-01T00:00:00.000Z''))
        [sampleEntry ''abc'' ''2025-01-01T00:01:00.000Z'' 1 ''2025-01-01T00:02:00.000Z'',
         sampleEntry ''xyz'' ''2025-01-01T00:01:00.000Z'' 2 ''2025-01-01T00:02:00.000Z''])) Missing True)
     = Some (sampleDoc (Some (sampleMarker ''abc'' ''2025-01-01T00:00:00.000Z''))
        [sampleEntry ''abc'' ''2025-01-01T00:01:00.000Z'' 1 ''2025-01-01T00:02:00.000Z'',
         sampleEntry ''xyz'' ''2025-01-01T00:01:00.000Z'' 2 ''2025-01-01T00:02:00.000Z''])
   \<and> storeReadable (localWorld (Doc (sampleDoc (Some (sampleMarker ''abc'' ''2025-01-01T00:00:00.000Z''))
        [sampleEntry ''abc'' ''2025-01-01T00:01:00.000Z'' 1 ''2025-01-01T00:02:00.000Z'',
         sampleEntry ''xyz'' ''2025-01-01T00:01:00.000Z'' 2 ''2025-01-01T00:02:00.000Z''])) Missing True)
   \<and> clearFromFailedQueue (Some ''abc'') (Some ''2025-01-01T00:02:00.000Z'')
        (localWorld (Doc (sampleDoc (Some (sampleMarker ''abc'' ''2025-01-01T00:00:00.000Z''))
        [sampleEntry ''abc'' ''2025-01-01T00:01:00.000Z'' 1 ''2025-01-01T00:02:00.000Z'',
         sampleEntry ''xyz'' ''2025-01-01T00:01:00.000Z'' 2 ''2025-01-01T00:02:00.000Z''])) Missing True)
     = (None, localWorld (Doc (sampleDoc (Some (sampleMarker ''abc'' ''2025-01-01T00:00:00.000Z''))
        [sampleEntry ''abc'' ''2025-01-01T00:01:00.000Z'' 1 ''2025-01-01T00:02:00.000Z'',
         sampleEntry ''xyz'' ''2025-01-01T00:01:00.000Z'' 2 ''2025-01-01T00:02:00.000Z''])) Missing True)
   \<and> fst (clearFromFailedQueue (Some ''abc'') (Some ''2025-01-01T00:01:00.000Z'')
        (localWorld (Doc (sampleDoc (Some (sampleMarker ''abc'' ''2025-01-01T00:00:00.000Z''))
        [sampleEntry ''abc'' ''2025-01-01T00:01:00.000Z'' 1 ''2025-01-01T00:02:00.000Z'',
         sampleEntry ''xyz'' ''2025-01-01T00:01:00.000Z'' 2 ''2025-01-01T00:02:00.000Z''])) Missing True)) = None
   \<and> storedDoc (snd (clearFromFailedQueue (Some ''abc'') (Some ''2025-01-01T00:01:00.000Z'')
        (localWorld (Doc (sampleDoc (Some (sampleMarker ''abc'' ''2025-01-01T00:00:00.000Z''))
        [sampleEntry ''abc'' ''2025-01-01T00:01:00.000Z'' 1 ''2025-01-01T00:02:00.000Z'',
         sampleEntry ''xyz'' ''2025-01-01T00:01:00.000Z'' 2 ''2025-01-01T00:02:00.000Z''])) Missing True)))
     = Some (sampleDoc (Some (sampleMarker ''abc'' ''2025-01-01T00:00:00.000Z''))
        [sampleEntry ''xyz'' ''2025-01-01T00:01:00.000Z'' 2 ''2025-01-01T00:02:00.000Z''])
   \<and> storedDoc (kvWorld (Some (sampleDoc (Some (sampleMarker ''abc'' ''2025-01-01T00:00:00.000Z''))
        [sampleEntry ''abc'' ''2025-01-01T00:01:00.000Z'' 1 ''2025-01-01T00:02:00.000Z'',
         sampleEntry ''xyz'' ''2025-01-01T00:01:00.000Z'' 2 ''2025-01-01T00:02:00.000Z''])) True [])
     = Some (sampleDoc (Some (sampleMarker ''abc'' ''2025-01-01T00:00:00.000Z''))
        [sampleEntry ''abc'' ''2025-01-01T00:01:00.000Z'' 1 ''2025-01-01T00:02:00.000Z'',
         sampleEntry ''xyz'' ''2025-01-01T00:01:00.000Z'' 2 ''2025-01-01T00:02:00.000Z''])
   \<and> storeReadable (kvWorld (Some (sampleDoc (Some (sampleMarker ''abc'' ''2025-01-01T00:00:00.000Z''))
        [sampleEntry ''abc'' ''2025-01-01T00:01:00.000Z'' 1 ''2025-01-01T00:02:00.000Z'',
         sampleEntry ''xyz'' ''2025-01-01T00:01:00.000Z'' 2 ''2025-01-01T00:02:00.000Z''])) True [])
   \<and> fst (clearFromFailedQueue (Some ''abc'') (Some ''2025-01-01T00:01:00.000Z'')
        (kvWorld (Some (sampleDoc (Some (sampleMarker ''abc'' ''2025-01-01T00:00:00.000Z''))
        [sampleEntry ''abc'' ''2025-01-01T00:01:00.000Z'' 1 ''2025-01-01T00:02:00.000Z'',
         sampleEntry ''xyz'' ''2025-01-01T00:01:00.000Z'' 2 ''2025-01-01T00:02:00.000Z''])) True [])) = None
   \<and> storedDoc (snd (clearFromFailedQueue (Some ''abc'') (Some ''2025-01-01T00:01:00.000Z'')
        (kvWorld (Some (sampleDoc (Some (sampleMarker ''abc'' ''2025-01-01T00:00:00.000Z''))
        [sampleEntry ''abc'' ''2025-01-01T00:01:00.000Z'' 1 ''2025-01-01T00:02:00.000Z'',
         sampleEntry ''xyz'' ''2025-01-01T00:01:00.000Z'' 2 ''2025-01-01T00:02:00.000Z''])) True [])))
     = Some (sampleDoc (Some (sampleMarker ''abc'' ''2025-01-01T00:00:00.000Z''))
        [sampleEntry ''xyz'' ''2025-01-01T00:01:00.000Z'' 2 ''2025-01-01T00:02:00.000Z''])"
proof -
  let ?eA = "sampleEntry ''abc'' ''2025-01-01T00:01:00.000Z'' 1 ''2025-01-01T00:02:00.000Z''"
  let ?eX = "sampleEntry ''xyz'' ''2025-01-01T00:01:00.000Z'' 2 ''2025-01-01T00:02:00.000Z''"
  let ?m = "Some (sampleMarker ''abc'' ''2025-01-01T00:00:00.000Z'')"
  let ?d = "sampleDoc ?m [?eA, ?eX]"
  let ?w = "localWorld (Doc ?d) Missing True"
  let ?k = "kvWorld (Some ?d) True []"
  let ?tid = "Some ''abc''"
  let ?hit = "Some ''2025-01-01T00:01:00.000Z''"
  let ?miss = "Some ''2025-01-01T00:02:00.000Z''"
  have sw: "storedDoc ?w = Some ?d"
    by (simp add: storedDoc_def shouldUseKV_def world_defs truthy_def)
  have rw: "storeReadable ?w"
    by (simp add: storeReadable_def shouldUseKV_def world_defs truthy_def)
  have ww: "storeWritable ?w"
    by (simp add: storeWritable_def shouldUseKV_def world_defs truthy_def)
  have sk: "storedDoc ?k = Some ?d"
    by (simp add: storedDoc_def shouldUseKV_def world_defs truthy_def)
  have rk: "storeReadable ?k"
    by (simp add: storeReadable_def shouldUseKV_def world_defs truthy_def)
  have wk: "storeWritable ?k"
    by (simp add: storeWritable_def shouldUseKV_def world_defs truthy_def)
  have keepA: "filter (otherEntry ?tid ?hit) (failedQueue ?d) = [?eX]"
    by (simp add: otherEntry_def sample_defs)
  have nomatch: "\<forall>item \<in> set (failedQueue ?d). otherEntry ?tid ?miss item"
    by (simp add: otherEntry_def sample_defs)
  have untouched: "clearFromFailedQueue ?tid ?miss ?w = (None, ?w)"
    using clearFromFailedQueue_frame[OF sw rw, of ?tid ?miss
            "fst (clearFromFailedQueue ?tid ?miss ?w)" "snd (clearFromFailedQueue ?tid ?miss ?w)"]
      nomatch ww
    by (metis prod.collapse)
  have onfile: "fst (clearFromFailedQueue ?tid ?hit ?w) = None
      \<and> (\<exists>d'. storedDoc (snd (clearFromFailedQueue ?tid ?hit ?w)) = Some d'
            \<and> lastProcessed d' = lastProcessed ?d \<and> stats d' = stats ?d
            \<and> metrics d' = metrics ?d \<and> alerts d' = alerts ?d \<and> failedQueue d' = [?eX])"
    using clearFromFailedQueue_frame[OF sw rw, of ?tid ?hit
            "fst (clearFromFailedQueue ?tid ?hit ?w)" "snd (clearFromFailedQueue ?tid ?hit ?w)"]
      ww keepA
    by (metis prod.collapse)
  have kvcase: "fst (clearFromFailedQueue ?tid ?hit ?k) = None
      \<and> (\<exists>d'. storedDoc (snd (clearFromFailedQueue ?tid ?hit ?k)) = Some d'
            \<and> lastProcessed d' = lastProcessed ?d \<and> stats d' = stats ?d
            \<and> metrics d' = metrics ?d \<and> alerts d' = alerts ?d \<and> failedQueue d' = [?eX])"
    using clearFromFailedQueue_frame[OF sk rk, of ?tid ?hit
            "fst (clearFromFailedQueue ?tid ?hit ?k)" "snd (clearFromFailedQueue ?tid ?hit ?k)"]
      wk keepA
    by (metis prod.collapse)
  have docEq: "\<And>d'. lastProcessed d' = lastProcessed ?d \<Longrightarrow> stats d' = stats ?d
            \<Longrightarrow> metrics d' = metrics ?d \<Longrightarrow> alerts d' = alerts ?d \<Longrightarrow> failedQueue d' = [?eX]
            \<Longrightarrow> d' = sampleDoc ?m [?eX]"
    by (simp add: sampleDoc_def)
  from onfile docEq have onfile2: "storedDoc (snd (clearFromFailedQueue ?tid ?hit ?w)) = Some (sampleDoc ?m [?eX])"
    by blast
  from kvcase docEq have onkv2: "storedDoc (snd (clearFromFailedQueue ?tid ?hit ?k)) = Some (sampleDoc ?m [?eX])"
    by blast
  from sw rw untouched onfile onfile2 sk rk kvcase onkv2 show ?thesis by blast
qed

text \<open>
  The claim as written fails when the store cannot be read: \<open>loadState\<close> then hands out a
  copy of \<open>DEFAULT_STATE\<close> and \<open>clearFromFailedQueue\<close> works on that. Take the KV backend
  with \<open>kv.get\<close> failing and a persisted document with a marker and two queued entries. In
  a fresh process the call finds an empty queue and returns without writing: it succeeds
  and the matching entry is still persisted. In a process whose \<open>DEFAULT_STATE\<close> array holds
  the entry (\<open>addToFailedQueue\<close> pushed it there during an earlier failed read), the call
  saves the default document without it: the persisted \<open>lastProcessed\<close> and the other
  entry are lost.
\<close>

theorem clearFromFailedQueue_frame_counterexample:
  "storedDoc (kvWorld (Some (sampleDoc (Some (sampleMarker ''abc'' ''2025-01-01T00:00:00.000Z''))
        [sampleEntry ''abc'' ''2025-01-01T00:01:00.000Z'' 1 ''2025-01-01T00:02:00.000Z'',
         sampleEntry ''xyz'' ''2025-01-01T00:01:00.000Z'' 2 ''2025-01-01T00:02:00.000Z''])) False [])
     = Some (sampleDoc (Some (sampleMarker ''abc'' ''2025-01-01T00:00:00.000Z''))
        [sampleEntry ''abc'' ''2025-01-01T00:01:00.000Z'' 1 ''2025-01-01T00:02:00.000Z'',
         sampleEntry ''xyz'' ''2025-01-01T00:01:00.000Z'' 2 ''2025-01-01T00:02:00.000Z''])
   \<and> clearFromFailedQueue (Some ''abc'') (Some ''2025-01-01T00:01:00.000Z'')
        (kvWorld (Some (sampleDoc (Some (sampleMarker ''abc'' ''2025-01-01T00:00:00.000Z''))
        [sampleEntry ''abc'' ''2025-01-01T00:01:00.000Z'' 1 ''2025-01-01T00:02:00.000Z'',
         sampleEntry ''xyz'' ''2025-01-01T00:01:00.000Z'' 2 ''2025-01-01T00:02:00.000Z''])) False [])
     = (None, kvWorld (Some (sampleDoc (Some (sampleMarker ''abc'' ''2025-01-01T00:00:00.000Z''))
        [sampleEntry ''abc'' ''2025-01-01T00:01:00.000Z'' 1 ''2025-01-01T00:02:00.000Z'',
         sampleEntry ''xyz'' ''2025-01-01T00:01:00.000Z'' 2 ''2025-01-01T00:02:00.000Z''])) False [])
   \<and> storedDoc (kvWorld (Some (sampleDoc (Some (sampleMarker ''abc'' ''2025-01-01T00:00:00.000Z''))
        [sampleEntry ''abc'' ''2025-01-01T00:01:00.000Z'' 1 ''2025-01-01T00:02:00.000Z'',
         sampleEntry ''xyz'' ''2025-01-01T00:01:00.000Z'' 2 ''2025-01-01T00:02:00.000Z'']))
        False [sampleEntry ''abc'' ''2025-01-01T00:01:00.000Z'' 1 ''2025-01-01T00:02:00.000Z''])
     = Some (sampleDoc (Some (sampleMarker ''abc'' ''2025-01-01T00:00:00.000Z''))
        [sampleEntry ''abc'' ''2025-01-01T00:01:00.000Z'' 1 ''2025-01-01T00:02:00.000Z'',
         sampleEntry ''xyz'' ''2025-01-01T00:01:00.000Z'' 2 ''2025-01-01T00:02:00.000Z''])
   \<and> fst (clearFromFailedQueue (Some ''abc'') (Some ''2025-01-01T00:01:00.000Z'')
        (kvWorld (Some (sampleDoc (Some (sampleMarker ''abc'' ''2025-01-01T00:00:00.000Z''))
        [sampleEntry ''abc'' ''2025-01-01T00:01:00.000Z'' 1 ''2025-01-01T00:02:00.000Z'',
         sampleEntry ''xyz'' ''2025-01-01T00:01:00.000Z'' 2 ''2025-01-01T00:02:00.000Z'']))
        False [sampleEntry ''abc'' ''2025-01-01T00:01:00.000Z'' 1 ''2025-01-01T00:02:00.000Z''])) = None
   \<and> storedDoc (snd (clearFromFailedQueue (Some ''abc'') (Some ''2025-01-01T00:01:00.000Z'')
        (kvWorld (Some (sampleDoc (Some (sampleMarker ''abc'' ''2025-01-01T00:00:00.000Z''))
        [sampleEntry ''abc'' ''2025-01-01T00:01:00.000Z'' 1 ''2025-01-01T00:02:00.000Z'',
         sampleEntry ''xyz'' ''2025-01-01T00:01:00.000Z'' 2 ''2025-01-01T00:02:00.000Z'']))
        False [sampleEntry ''abc'' ''2025-01-01T00:01:00.000Z'' 1 ''2025-01-01T00:02:00.000Z''])))
     = Some (sampleDoc None [])"
  by (simp add: state_defs store_defs shouldUseKV_def world_defs sample_defs truthy_def Let_def)

section \<open>What a load returns after a save\<close>

lemma DEFAULT_STATE_executionStarted [simp]:
  "DEFAULT_STATE (w\<lparr>memory := (memory w)\<lparr>executionStarted := b\<rparr>\<rparr>) = DEFAULT_STATE w"
  by (simp add: DEFAULT_STATE_def)

lemma loadState_executionStarted [simp]:
  "loadState (w\<lparr>memory := (memory w)\<lparr>executionStarted := b\<rparr>\<rparr>) = loadState w"
  by (simp add: loadState_def loadStateLocal_def loadStateKV_def ensureStateDir_def
           split: filedata.splits option.splits)

lemma loadState_startExecution [simp]: "loadState (startExecution w) = loadState w"
  by (simp add: startExecution_def)

lemma saveStateLocal_view:
  assumes "saveStateLocal d' w = (None, w')"
  shows "loadStateLocal w' = Inr (d', Parsed)"
  using assms
  by (auto simp: saveStateLocal_def loadStateLocal_def ensureStateDir_def Let_def split: if_splits)

lemma saveStateKV_view:
  assumes "saveStateKV d' w = (None, w')" and "loadStateKV w = Inr (d, og)"
  shows "loadStateKV w' = Inr (d', Parsed) \<or> loadStateKV w' = Inr (d, og)"
  using assms
  by (auto simp: saveStateKV_def loadStateKV_def DEFAULT_STATE_def split: if_splits)

lemma saveState_env: "saveState d' w = (r, w') \<Longrightarrow> env w' = env w"
  by (auto simp: saveState_def saveStateKV_def saveStateLocal_def Let_def split: if_splits option.splits)

lemma saveState_view:
  assumes "saveState d' w = (None, w')" and "loadState w = Inr (d, og)"
  shows "loadState w' = Inr (d', Parsed) \<or> loadState w' = Inr (d, og)"
proof (cases "shouldUseKV (env w)")
  case True
  with assms saveState_env[OF assms(1)] saveStateKV_view[of d' w w' d og] show ?thesis
    by (simp add: saveState_def loadState_def)
next
  case False
  with assms saveState_env[OF assms(1)] saveStateLocal_view[of d' w w'] show ?thesis
    by (simp add: saveState_def loadState_def)
qed

lemma saveState_kvReadsOk: "saveState d w = (r, w') \<Longrightarrow> kvReadsOk w' = kvReadsOk w"
  by (auto simp: saveState_def saveStateKV_def saveStateLocal_def kvReadsOk_def Let_def
           split: if_splits option.splits)

lemma kvReadsOk_setSharedQueue [simp]: "kvReadsOk (setSharedQueue og q w) = kvReadsOk w"
  by (simp add: kvReadsOk_def setSharedQueue_def split: origin.splits)

lemma kvReadsOk_setSharedStats [simp]: "kvReadsOk (setSharedStats og s w) = kvReadsOk w"
  by (simp add: kvReadsOk_def setSharedStats_def split: origin.splits)

lemma kvReadsOk_executionStarted [simp]:
  "kvReadsOk (w\<lparr>memory := (memory w)\<lparr>executionStarted := b\<rparr>\<rparr>) = kvReadsOk w"
  by (simp add: kvReadsOk_def)

lemma kvReadsOk_startExecution [simp]: "kvReadsOk (startExecution w) = kvReadsOk w"
  by (simp add: startExecution_def)



text \<open>A successful load-change-save of \<open>metrics\<close> or \<open>alerts\<close> keeps the other fields.\<close>

lemma saveMetricsState_core:
  assumes "saveMetricsState ms w = (None, w')" and "loadState w = Inr (d, og)"
  shows "\<exists>d' og'. loadState w' = Inr (d', og') \<and> lastProcessed d' = lastProcessed d
           \<and> failedQueue d' = failedQueue d \<and> stats d' = stats d"
proof -
  from assms have "saveState (d\<lparr>metrics := Some ms\<rparr>) w = (None, w')"
    by (simp add: saveMetricsState_def)
  from saveState_view[OF this assms(2)] show ?thesis by auto
qed

lemma saveAlertState_core:
  assumes "saveAlertState a w = (None, w')" and "loadState w = Inr (d, og)"
  shows "\<exists>d' og'. loadState w' = Inr (d', og') \<and> lastProcessed d' = lastProcessed d
           \<and> failedQueue d' = failedQueue d \<and> stats d' = stats d"
proof -
  from assms have "saveState (d\<lparr>alerts := Some a\<rparr>) w = (None, w')"
    by (simp add: saveAlertState_def)
  from saveState_view[OF this assms(2)] show ?thesis by auto
qed

lemma endExecution_core:
  assumes "endExecution f w = (None, w')" and "loadState w = Inr (d, og)"
  shows "\<exists>d' og'. loadState w' = Inr (d', og') \<and> lastProcessed d' = lastProcessed d
           \<and> failedQueue d' = failedQueue d \<and> stats d' = stats d"
proof (cases "executionStarted (memory w)")
  case False
  with assms show ?thesis by (auto simp: endExecution_def)
next
  case True
  with assms obtain w1 where s: "saveMetricsState (f (metrics d)) w = (None, w1)"
    and w': "w' = w1\<lparr>memory := (memory w1)\<lparr>executionStarted := False\<rparr>\<rparr>"
    by (auto simp: endExecution_def split: prod.splits option.splits)
  from saveMetricsState_core[OF s assms(2)] w' show ?thesis by simp
qed

lemma alertWrite_core:
  assumes "alertWrite g w = (None, w')" and "loadState w = Inr (d, og)"
  shows "\<exists>d' og'. loadState w' = Inr (d', og') \<and> lastProcessed d' = lastProcessed d
           \<and> failedQueue d' = failedQueue d \<and> stats d' = stats d"
  using assms saveAlertState_core by (auto simp: alertWrite_def)

lemma alertWrites_core:
  assumes "alertWrites gs w = (None, w')" and "loadState w = Inr (d, og)"
  shows "\<exists>d' og'. loadState w' = Inr (d', og') \<and> lastProcessed d' = lastProcessed d
           \<and> failedQueue d' = failedQueue d \<and> stats d' = stats d"
  using assms
proof (induction gs arbitrary: w d og)
  case Nil
  then show ?case by simp
next
  case (Cons g gs)
  from Cons.prems(1) obtain w1 where a: "alertWrite g w = (None, w1)" and r: "alertWrites gs w1 = (None, w')"
    by (auto split: prod.splits option.splits)
  from alertWrite_core[OF a Cons.prems(2)] obtain d1 og1 where
    l1: "loadState w1 = Inr (d1, og1)" and c1: "lastProcessed d1 = lastProcessed d"
      "failedQueue d1 = failedQueue d" "stats d1 = stats d" by blast
  from Cons.IH[OF r l1] c1 show ?case by auto
qed

lemma trackFailedRun_core:
  assumes "trackFailedRun g sent w = (None, w')" and "loadState w = Inr (d, og)"
  shows "\<exists>d' og'. loadState w' = Inr (d', og') \<and> lastProcessed d' = lastProcessed d
           \<and> failedQueue d' = failedQueue d \<and> stats d' = stats d"
proof -
  from assms(1) obtain w1 where a: "alertWrite g w = (None, w1)" and r: "alertWrites sent w1 = (None, w')"
    by (auto simp: trackFailedRun_def split: prod.splits option.splits)
  from alertWrite_core[OF a assms(2)] obtain d1 og1 where
    l1: "loadState w1 = Inr (d1, og1)" and c1: "lastProcessed d1 = lastProcessed d"
      "failedQueue d1 = failedQueue d" "stats d1 = stats d" by blast
  from alertWrites_core[OF r l1] c1 show ?thesis by auto
qed

text \<open>The stored document through the writes of the metrics and alerting modules, whether
  they succeed or throw.\<close>

lemma storedDoc_executionStarted [simp]:
  "storedDoc (w\<lparr>memory := (memory w)\<lparr>executionStarted := b\<rparr>\<rparr>) = storedDoc w"
  by (simp add: storedDoc_def)

lemma saveState_stored_core:
  assumes "saveState d' w = (r, w')" and "storedDoc w = Some d"
    and "lastProcessed d' = lastProcessed d" and "failedQueue d' = failedQueue d" and "stats d' = stats d"
  shows "\<exists>d''. storedDoc w' = Some d'' \<and> lastProcessed d'' = lastProcessed d
           \<and> failedQueue d'' = failedQueue d \<and> stats d'' = stats d"
proof (cases "shouldUseKV (env w)")
  case True
  with assms show ?thesis
    by (auto simp: saveState_def saveStateKV_def storedDoc_def split: if_splits)
next
  case False
  with assms show ?thesis
    by (auto simp: saveState_def saveStateLocal_def ensureStateDir_def storedDoc_def Let_def
          split: if_splits filedata.splits)
qed

lemma saveMetricsState_stored:
  assumes "saveMetricsState ms w = (r, w')" and "kvReadsOk w" and "storedDoc w = Some d"
  shows "kvReadsOk w' \<and> (\<exists>d'. storedDoc w' = Some d' \<and> lastProcessed d' = lastProcessed d
           \<and> failedQueue d' = failedQueue d \<and> stats d' = stats d)"
proof -
  from loadState_stored[OF assms(2,3)] show ?thesis
  proof
    assume l: "loadState w = Inr (d, Parsed)"
    with assms(1) have s: "saveState (d\<lparr>metrics := Some ms\<rparr>) w = (r, w')"
      by (simp add: saveMetricsState_def)
    from saveState_stored_core[OF s assms(3)] saveState_kvReadsOk[OF s] assms(2) show ?thesis by simp
  next
    assume "\<exists>e. loadState w = Inl e"
    with assms show ?thesis by (auto simp: saveMetricsState_def)
  qed
qed

lemma saveAlertState_stored:
  assumes "saveAlertState a w = (r, w')" and "kvReadsOk w" and "storedDoc w = Some d"
  shows "kvReadsOk w' \<and> (\<exists>d'. storedDoc w' = Some d' \<and> lastProcessed d' = lastProcessed d
           \<and> failedQueue d' = failedQueue d \<and> stats d' = stats d)"
proof -
  from loadState_stored[OF assms(2,3)] show ?thesis
  proof
    assume l: "loadState w = Inr (d, Parsed)"
    with assms(1) have s: "saveState (d\<lparr>alerts := Some a\<rparr>) w = (r, w')"
      by (simp add: saveAlertState_def)
    from saveState_stored_core[OF s assms(3)] saveState_kvReadsOk[OF s] assms(2) show ?thesis by simp
  next
    assume "\<exists>e. loadState w = Inl e"
    with assms show ?thesis by (auto simp: saveAlertState_def)
  qed
qed

lemma endExecution_stored:
  assumes "endExecution f w = (r, w')" and "kvReadsOk w" and "storedDoc w = Some d"
  shows "kvReadsOk w' \<and> (\<exists>d'. storedDoc w' = Some d' \<and> lastProcessed d' = lastProcessed d
           \<and> failedQueue d' = failedQueue d \<and> stats d' = stats d)"
proof (cases "executionStarted (memory w)")
  case False
  with assms show ?thesis by (auto simp: endExecution_def)
next
  case True
  show ?thesis
  proof (cases "loadState w")
    case (Inl e)
    with assms True show ?thesis by (auto simp: endExecution_def)
  next
    case (Inr x)
    obtain st og where x: "x = (st, og)" by (cases x)
    obtain r1 w1 where s: "saveMetricsState (f (metrics st)) w = (r1, w1)"
      by (cases "saveMetricsState (f (metrics st)) w")
    from saveMetricsState_stored[OF s assms(2,3)] have k1: "kvReadsOk w1"
      and d1: "\<exists>d'. storedDoc w1 = Some d' \<and> lastProcessed d' = lastProcessed d
           \<and> failedQueue d' = failedQueue d \<and> stats d' = stats d" by auto
    from assms(1) True Inr x s have "w' = w1 \<or> w' = w1\<lparr>memory := (memory w1)\<lparr>executionStarted := False\<rparr>\<rparr>"
      by (auto simp: endExecution_def split: option.splits)
    with k1 d1 show ?thesis by auto
  qed
qed

lemma alertWrite_stored:
  assumes "alertWrite g w = (r, w')" and "kvReadsOk w" and "storedDoc w = Some d"
  shows "kvReadsOk w' \<and> (\<exists>d'. storedDoc w' = Some d' \<and> lastProcessed d' = lastProcessed d
           \<and> failedQueue d' = failedQueue d \<and> stats d' = stats d)"
proof (cases "loadState w")
  case (Inl e)
  with assms show ?thesis by (auto simp: alertWrite_def)
next
  case (Inr x)
  obtain st og where x: "x = (st, og)" by (cases x)
  from assms(1) Inr x have "saveAlertState (g (alerts st)) w = (r, w')"
    by (simp add: alertWrite_def)
  from saveAlertState_stored[OF this assms(2,3)] show ?thesis .
qed

lemma alertWrites_stored:
  assumes "alertWrites gs w = (r, w')" and "kvReadsOk w" and "storedDoc w = Some d"
  shows "kvReadsOk w' \<and> (\<exists>d'. storedDoc w' = Some d' \<and> lastProcessed d' = lastProcessed d
           \<and> failedQueue d' = failedQueue d \<and> stats d' = stats d)"
  using assms
proof (induction gs arbitrary: w d)
  case Nil
  then show ?case by simp
next
  case (Cons g gs)
  obtain r1 w1 where a: "alertWrite g w = (r1, w1)" by (cases "alertWrite g w")
  from alertWrite_stored[OF a Cons.prems(2,3)] obtain d1 where k1: "kvReadsOk w1"
    and s1: "storedDoc w1 = Some d1" and c1: "lastProcessed d1 = lastProcessed d"
      "failedQueue d1 = failedQueue d" "stats d1 = stats d" by blast
  show ?case
  proof (cases r1)
    case None
    with Cons.prems(1) a have "alertWrites gs w1 = (r, w')" by simp
    from Cons.IH[OF this k1 s1] c1 show ?thesis by auto
  next
    case (Some e)
    with Cons.prems(1) a have "w' = w1" by simp
    with k1 s1 c1 show ?thesis by auto
  qed
qed

section \<open>The logging run\<close>

lemma catchPath_cases:
  "\<exists>resp w'. catchPath E err cs w = (resp, cs, w') \<and> (resp = Status500 err \<or> (\<exists>e. resp = Rejected e))"
  by (auto simp: catchPath_def split: prod.splits option.splits)

lemma catchPath_core:
  assumes "catchPath E err cs w = (Status500 e, cs', w')" and "loadState w = Inr (d, og)"
  shows "\<exists>d' og'. loadState w' = Inr (d', og') \<and> lastProcessed d' = lastProcessed d
           \<and> failedQueue d' = failedQueue d \<and> stats d' = stats d"
proof -
  from assms(1) obtain w1 where a: "endExecution (metricsUpdate E) w = (None, w1)"
    and r: "trackFailedRun (failureUpdate E) (failureAlerts E) w1 = (None, w')"
    by (auto simp: catchPath_def split: prod.splits option.splits)
  from endExecution_core[OF a assms(2)] obtain d1 og1 where
    l1: "loadState w1 = Inr (d1, og1)" and c1: "lastProcessed d1 = lastProcessed d"
      "failedQueue d1 = failedQueue d" "stats d1 = stats d" by blast
  from trackFailedRun_core[OF r l1] c1 show ?thesis by auto
qed

lemma gatherStep_Enriched_load:
  "gatherStep E w = Enriched u f sc fc \<Longrightarrow> \<exists>d og. loadState w = Inr (d, og)"
  by (auto simp: gatherStep_def Let_def split: sum.splits prod.splits)

lemma catchPath_stored:
  assumes "catchPath E err cs w = (resp, cs', w')" and "kvReadsOk w" and "storedDoc w = Some d"
  shows "\<exists>d'. storedDoc w' = Some d' \<and> lastProcessed d' = lastProcessed d
           \<and> failedQueue d' = failedQueue d \<and> stats d' = stats d"
proof -
  obtain r1 w1 where a: "endExecution (metricsUpdate E) w = (r1, w1)"
    by (cases "endExecution (metricsUpdate E) w")
  from endExecution_stored[OF a assms(2,3)] obtain d1 where k1: "kvReadsOk w1"
    and s1: "storedDoc w1 = Some d1" and c1: "lastProcessed d1 = lastProcessed d"
      "failedQueue d1 = failedQueue d" "stats d1 = stats d" by blast
  show ?thesis
  proof (cases r1)
    case (Some e)
    with assms(1) a have "w' = w1" by (simp add: catchPath_def)
    with s1 c1 show ?thesis by auto
  next
    case None
    obtain r2 w2 where b: "alertWrite (failureUpdate E) w1 = (r2, w2)"
      by (cases "alertWrite (failureUpdate E) w1")
    from alertWrite_stored[OF b k1 s1] obtain d2 where k2: "kvReadsOk w2"
      and s2: "storedDoc w2 = Some d2" and c2: "lastProcessed d2 = lastProcessed d1"
        "failedQueue d2 = failedQueue d1" "stats d2 = stats d1" by blast
    show ?thesis
    proof (cases r2)
      case (Some e)
      with assms(1) a None b have "w' = w2" by (simp add: catchPath_def trackFailedRun_def)
      with s2 c2 c1 show ?thesis by auto
    next
      case None2: None
      obtain r3 w3 where c: "alertWrites (failureAlerts E) w2 = (r3, w3)"
        by (cases "alertWrites (failureAlerts E) w2")
      from alertWrites_stored[OF c k2 s2] obtain d3 where
        s3: "storedDoc w3 = Some d3" and c3: "lastProcessed d3 = lastProcessed d2"
          "failedQueue d3 = failedQueue d2" "stats d3 = stats d2" by blast
      from assms(1) a None b None2 c have "w' = w3"
        by (auto simp: catchPath_def trackFailedRun_def split: option.splits)
      with s3 c3 c2 c1 show ?thesis by auto
    qed
  qed
qed

lemma storedDoc_startExecution [simp]: "storedDoc (startExecution w) = storedDoc w"
  by (simp add: startExecution_def)

text \<open>
  Claim C6: when the run has enriched its tracks and \<open>appendRows\<close> throws, the handler makes
  no call to \<open>updateLastProcessed\<close>, \<open>addToFailedQueue\<close> or \<open>updateStats\<close> and ends in its
  \<open>catch\<close> block: with the 500 response, or with an exception thrown by that block. After
  the 500 response \<open>loadState\<close> returns the \<open>lastProcessed\<close>, \<open>failedQueue\<close> and \<open>stats\<close> it
  returned before the run; and whenever the stored document can be read, the stored
  document keeps these three fields, whatever the response.
\<close>

theorem append_failure_persists_nothing:
  assumes "gatherStep E (startExecution w) = Enriched uniqueTracks failedTracks sc fc"
    and "appendError E = Some err"
  shows "\<exists>resp w'. logHandler E w = (resp, [], w')
           \<and> (resp = Status500 err \<or> (\<exists>e. resp = Rejected e))
           \<and> (resp = Status500 err \<longrightarrow>
                (\<exists>d og d' og'. loadState w = Inr (d, og) \<and> loadState w' = Inr (d', og')
                   \<and> lastProcessed d' = lastProcessed d
                   \<and> failedQueue d' = failedQueue d
                   \<and> stats d' = stats d))
           \<and> (kvReadsOk w \<longrightarrow>
                (\<forall>d. storedDoc w = Some d \<longrightarrow>
                   (\<exists>d'. storedDoc w' = Some d'
                      \<and> lastProcessed d' = lastProcessed d
                      \<and> failedQueue d' = failedQueue d
                      \<and> stats d' = stats d)))"
proof -
  have run: "logHandler E w = catchPath E err [] (startExecution w)"
    using assms by (simp add: logHandler_def Let_def)
  from catchPath_cases[of E err "[]" "startExecution w"] obtain resp w' where
    c: "catchPath E err [] (startExecution w) = (resp, [], w')"
    and r: "resp = Status500 err \<or> (\<exists>e. resp = Rejected e)" by blast
  from gatherStep_Enriched_load[OF assms(1)] obtain d og where l: "loadState w = Inr (d, og)"
    by auto
  have view: "resp = Status500 err \<longrightarrow>
          (\<exists>d' og'. loadState w' = Inr (d', og') \<and> lastProcessed d' = lastProcessed d
                   \<and> failedQueue d' = failedQueue d \<and> stats d' = stats d)"
  proof
    assume "resp = Status500 err"
    with c have "catchPath E err [] (startExecution w) = (Status500 err, [], w')" by simp
    from catchPath_core[OF this] l show "\<exists>d' og'. loadState w' = Inr (d', og') \<and> lastProcessed d' = lastProcessed d
                   \<and> failedQueue d' = failedQueue d \<and> stats d' = stats d" by simp
  qed
  have stored: "kvReadsOk w \<longrightarrow>
                (\<forall>d. storedDoc w = Some d \<longrightarrow>
                   (\<exists>d'. storedDoc w' = Some d'
                      \<and> lastProcessed d' = lastProcessed d
                      \<and> failedQueue d' = failedQueue d
                      \<and> stats d' = stats d))"
  proof (intro impI allI)
    fix d0
    assume k: "kvReadsOk w" and s: "storedDoc w = Some d0"
    have k': "kvReadsOk (startExecution w)" using k by simp
    have s': "storedDoc (startExecution w) = Some d0" using s by simp
    from catchPath_stored[OF c k' s']
    show "\<exists>d'. storedDoc w' = Some d' \<and> lastProcessed d' = lastProcessed d0
                      \<and> failedQueue d' = failedQueue d0 \<and> stats d' = stats d0" .
  qed
  from run c r l view stored show ?thesis by auto
qed

theorem append_failure_persists_nothing_witness:
  "gatherStep
     (sampleLogEnv [sampleTrack ''xyz'' 180000 ''2025-01-01T00:02:00.000Z'',
                    sampleTrack ''abc'' 180000 ''2025-01-01T00:01:00.000Z'']
        [[''Timestamp'']]
        (\<lambda>t. if item_id t = Some ''abc'' then Some ''HTTP 429'' else None)
        (Some (ApiError ''quota exceeded'')))
     (startExecution (localWorld (Doc (sampleDoc (Some (sampleMarker ''old'' ''2025-01-01T00:00:00.000Z'')) [])) Missing True))
   = Enriched [sampleTrack ''abc'' 180000 ''2025-01-01T00:01:00.000Z'',
               sampleTrack ''xyz'' 180000 ''2025-01-01T00:02:00.000Z'']
              [(sampleTrack ''abc'' 180000 ''2025-01-01T00:01:00.000Z'', ''HTTP 429'')] 1 1
   \<and> fst (logHandler
     (sampleLogEnv [sampleTrack ''xyz'' 180000 ''2025-01-01T00:02:00.000Z'',
                    sampleTrack ''abc'' 180000 ''2025-01-01T00:01:00.000Z'']
        [[''Timestamp'']]
        (\<lambda>t. if item_id t = Some ''abc'' then Some ''HTTP 429'' else None)
        (Some (ApiError ''quota exceeded'')))
     (localWorld (Doc (sampleDoc (Some (sampleMarker ''old'' ''2025-01-01T00:00:00.000Z'')) [])) Missing True))
     = Status500 (ApiError ''quota exceeded'')
   \<and> fst (snd (logHandler
     (sampleLogEnv [sampleTrack ''xyz'' 180000 ''2025-01-01T00:02:00.000Z'',
                    sampleTrack ''abc'' 180000 ''2025-01-01T00:01:00.000Z'']
        [[''Timestamp'']]
        (\<lambda>t. if item_id t = Some ''abc'' then Some ''HTTP 429'' else None)
        (Some (ApiError ''quota exceeded'')))
     (localWorld (Doc (sampleDoc (Some (sampleMarker ''old'' ''2025-01-01T00:00:00.000Z'')) [])) Missing True)))
     = []
   \<and> storedDoc (snd (snd (logHandler
     (sampleLogEnv [sampleTrack ''xyz'' 180000 ''2025-01-01T00:02:00.000Z'',
                    sampleTrack ''abc'' 180000 ''2025-01-01T00:01:00.000Z'']
        [[''Timestamp'']]
        (\<lambda>t. if item_id t = Some ''abc'' then Some ''HTTP 429'' else None)
        (Some (ApiError ''quota exceeded'')))
     (localWorld (Doc (sampleDoc (Some (sampleMarker ''old'' ''2025-01-01T00:00:00.000Z'')) [])) Missing True))))
     = Some ((sampleDoc (Some (sampleMarker ''old'' ''2025-01-01T00:00:00.000Z'')) [])
               \<lparr>metrics := Some ''{executions: 1}'', alerts := Some ''{consecutiveFailures: 1}''\<rparr>)"
proof -
  let ?E = "sampleLogEnv [sampleTrack ''xyz'' 180000 ''2025-01-01T00:02:00.000Z'',
                    sampleTrack ''abc'' 180000 ''2025-01-01T00:01:00.000Z'']
        [[''Timestamp'']]
        (\<lambda>t. if item_id t = Some ''abc'' then Some ''HTTP 429'' else None)
        (Some (ApiError ''quota exceeded''))"
  let ?w = "localWorld (Doc (sampleDoc (Some (sampleMarker ''old'' ''2025-01-01T00:00:00.000Z'')) [])) Missing True"
  have g: "gatherStep ?E (startExecution ?w)
     = Enriched [sampleTrack ''abc'' 180000 ''2025-01-01T00:01:00.000Z'',
               sampleTrack ''xyz'' 180000 ''2025-01-01T00:02:00.000Z'']
              [(sampleTrack ''abc'' 180000 ''2025-01-01T00:01:00.000Z'', ''HTTP 429'')] 1 1"
    by (simp add: log_defs state_defs store_defs shouldUseKV_def world_defs sample_defs js_defs
          filter_defs sheet_defs Let_def)
  have a: "appendError ?E = Some (ApiError ''quota exceeded'')"
    by (simp add: sampleLogEnv_def)
  from append_failure_persists_nothing[OF g a] have calls: "fst (snd (logHandler ?E ?w)) = []"
    by auto
  have eval: "fst (logHandler ?E ?w) = Status500 (ApiError ''quota exceeded'')
     \<and> storedDoc (snd (snd (logHandler ?E ?w)))
     = Some ((sampleDoc (Some (sampleMarker ''old'' ''2025-01-01T00:00:00.000Z'')) [])
               \<lparr>metrics := Some ''{executions: 1}'', alerts := Some ''{consecutiveFailures: 1}''\<rparr>)"
    by (simp add: log_defs state_defs store_defs shouldUseKV_def world_defs sample_defs js_defs
          filter_defs sheet_defs Let_def)
  from g calls eval show ?thesis by blast
qed

lemma set_insertByTime [simp]: "set (insertByTime D x ys) = insert x (set ys)"
  by (induction ys) auto

lemma set_sortTracksByTimestamp [simp]: "set (sortTracksByTimestamp D xs) = set xs"
  by (induction xs) (auto simp: sortTracksByTimestamp_def)

lemma set_filterNewPlays:
  "set (filterNewPlays D (Some ts) st) = {t \<in> set ts. keepPlay D st t}"
  by (auto simp: filterNewPlays_def)

lemma set_filterDuplicatesAgainstSheet:
  "set (filterDuplicatesAgainstSheet D (Some ts) rows) \<subseteq> set ts"
  by (auto simp: filterDuplicatesAgainstSheet_def)

lemma foldl_latest_mem:
  "foldl (\<lambda>latest current. if P current latest then current else latest) t ts \<in> insert t (set ts)"
  by (induction ts arbitrary: t) auto

lemma getMostRecentTrack_mem:
  "getMostRecentTrack D (Some ts) = Some t \<Longrightarrow> t \<in> set ts"
proof (cases ts)
  case Nil
  then show "getMostRecentTrack D (Some ts) = Some t \<Longrightarrow> t \<in> set ts"
    by (simp add: getMostRecentTrack_def)
next
  case (Cons x xs)
  assume "getMostRecentTrack D (Some ts) = Some t"
  with Cons have "t = foldl (\<lambda>latest current.
                  if num_gt (getTime D (played_at current)) (getTime D (played_at latest))
                  then current else latest) x xs"
    by (simp add: getMostRecentTrack_def)
  with foldl_latest_mem[of "\<lambda>c l. num_gt (getTime D (played_at c)) (getTime D (played_at l))" x xs] Cons
  show "t \<in> set ts" by simp
qed

lemma getMostRecentTrack_nonempty:
  "ts \<noteq> [] \<Longrightarrow> \<exists>t. getMostRecentTrack D (Some ts) = Some t"
  by (cases ts) (auto simp: getMostRecentTrack_def)

lemma gatherStep_Enriched:
  assumes "gatherStep E w = Enriched u f sc fc" and "loadState w = Inr (d, og)"
  shows "u \<noteq> [] \<and> (\<exists>items. recentlyPlayed E = Inr (Some items)
            \<and> (\<forall>x \<in> set u. x \<in> set items \<and> keepPlay (dateParse E) (Some d) x))"
proof -
  from assms obtain items where rp: "recentlyPlayed E = Inr items"
    by (auto simp: gatherStep_def getStats_def Let_def split: sum.splits)
  let ?tracks = "case items of None \<Rightarrow> [] | Some xs \<Rightarrow> xs"
  let ?filtered = "filterNewPlays (dateParse E) (Some ?tracks) (Some d)"
  let ?sorted = "sortTracksByTimestamp (dateParse E) ?filtered"
  from assms rp have ne: "?tracks \<noteq> []"
    by (auto simp: gatherStep_def getStats_def Let_def split: sum.splits if_splits)
  then obtain xs where items: "items = Some xs" by (cases items) auto
  from assms rp ne obtain rows where ll: "listeningLog E = Inr rows"
    by (auto simp: gatherStep_def getStats_def Let_def split: sum.splits if_splits)
  from assms rp ne ll have u: "u = filterDuplicatesAgainstSheet (dateParse E) (Some ?sorted) (Some rows)"
    and une: "u \<noteq> []"
    by (auto simp: gatherStep_def getStats_def Let_def split: sum.splits if_splits prod.splits)
  have "set u \<subseteq> set ?sorted" unfolding u by (rule set_filterDuplicatesAgainstSheet)
  then have "\<forall>x \<in> set u. x \<in> set xs \<and> keepPlay (dateParse E) (Some d) x"
    using items by (auto simp: set_filterNewPlays)
  with une rp items show ?thesis by auto
qed

lemma keepPlay_newer:
  assumes "keepPlay D (Some d) x" and "getTime D (played_at x) = Some a"
    and "lastProcessedTime D (Some d) = Some b"
  shows "b < a"
  using assms by (auto simp: keepPlay_def num_le_def split: if_splits)

text \<open>What each successful operation of Step 9, and Step 10, leave persisted.\<close>

lemma loadState_readable:
  assumes "storeReadable w" and "loadState w = Inr (d, og)"
  shows "lastProcessed d = state_marker (storedDoc w)"
  using assms
  by (auto simp: storeReadable_def loadState_def loadStateKV_def loadStateLocal_def ensureStateDir_def
        storedDoc_def state_marker_def DEFAULT_STATE_def split: if_splits filedata.splits option.splits)

lemma lastProcessedTime_marker:
  "state_marker s = state_marker s' \<Longrightarrow> lastProcessedTime D s = lastProcessedTime D s'"
  by (auto simp: state_marker_def lastProcessedTime_def split: option.splits)

lemma updateLastProcessed_stored:
  assumes "updateLastProcessed t now w = (None, w')" and "kvReadsOk w"
  shows "kvReadsOk w' \<and> (\<exists>d' m. storedDoc w' = Some d' \<and> lastProcessed d' = Some m \<and> playedAt m = played_at t)"
proof -
  from assms(1) obtain d og where l: "loadState w = Inr (d, og)"
    by (auto simp: updateLastProcessed_def split: sum.splits)
  let ?d = "d\<lparr>lastProcessed := Some \<lparr>trackId = Some (orElse (item_id t) []), trackName = None,
                               timestamp = Some now, playedAt = played_at t\<rparr>\<rparr>"
  from assms l have s: "saveState ?d w = (None, w')" by (simp add: updateLastProcessed_def)
  from saveState_stored[OF s] saveState_kvReadsOk[OF s] assms(2) show ?thesis by simp
qed

lemma addToFailedQueue_stored:
  assumes "addToFailedQueue t err now w = (None, w')" and "kvReadsOk w" and "storedDoc w = Some d"
  shows "kvReadsOk w' \<and> (\<exists>d'. storedDoc w' = Some d' \<and> lastProcessed d' = lastProcessed d)"
proof -
  from loadState_stored[OF assms(2,3)] assms(1) have l: "loadState w = Inr (d, Parsed)"
    by (auto simp: addToFailedQueue_def)
  with assms(1) obtain q' where s: "saveState (d\<lparr>failedQueue := q'\<rparr>) (setSharedQueue Parsed q' w) = (None, w')"
    by (auto simp: addToFailedQueue_def Let_def)
  have k: "kvReadsOk (setSharedQueue Parsed q' w)" using assms(2) by simp
  from saveState_stored[OF s] saveState_kvReadsOk[OF s] k show ?thesis by simp
qed

lemma addAllToFailedQueue_stored:
  assumes "addAllToFailedQueue fs now w = (None, cs, w')" and "kvReadsOk w" and "storedDoc w = Some d"
  shows "kvReadsOk w' \<and> (\<exists>d'. storedDoc w' = Some d' \<and> lastProcessed d' = lastProcessed d)
           \<and> (\<forall>t. UpdateLastProcessedCall t \<notin> set cs)"
  using assms
proof (induction fs arbitrary: w d cs)
  case Nil
  then show ?case by auto
next
  case (Cons f fs)
  obtain t msg where f: "f = (t, msg)" by (cases f)
  from Cons.prems(1) f obtain w1 cs1 where a: "addToFailedQueue t msg now w = (None, w1)"
    and r: "addAllToFailedQueue fs now w1 = (None, cs1, w')" and cs: "cs = AddToFailedQueueCall t msg # cs1"
    by (auto split: prod.splits option.splits)
  from addToFailedQueue_stored[OF a Cons.prems(2,3)] obtain d1 where
    k1: "kvReadsOk w1" and s1: "storedDoc w1 = Some d1" and c1: "lastProcessed d1 = lastProcessed d"
    by blast
  from Cons.IH[OF r k1 s1] c1 cs show ?case by auto
qed

lemma updateStats_kept:
  assumes "updateStats sc fc now w = (None, w')" and "kvReadsOk w" and "storedDoc w = Some d"
  shows "kvReadsOk w' \<and> (\<exists>d'. storedDoc w' = Some d' \<and> lastProcessed d' = lastProcessed d
           \<and> failedQueue d' = failedQueue d)"
proof -
  from loadState_stored[OF assms(2,3)] assms(1) have l: "loadState w = Inr (d, Parsed)"
    by (auto simp: updateStats_def)
  with assms(1) obtain s' where s: "saveState (d\<lparr>stats := s'\<rparr>) (setSharedStats Parsed s' w) = (None, w')"
    by (auto simp: updateStats_def Let_def)
  have k: "kvReadsOk (setSharedStats Parsed s' w)" using assms(2) by simp
  from saveState_stored[OF s] saveState_kvReadsOk[OF s] k show ?thesis by simp
qed

lemma updateStateStep_stored:
  assumes "updateStateStep D u f sc fc now w = (None, cs, w')" and "kvReadsOk w" and "u \<noteq> []"
  shows "\<exists>t d' m. t \<in> set u \<and> kvReadsOk w' \<and> storedDoc w' = Some d'
           \<and> lastProcessed d' = Some m \<and> playedAt m = played_at t
           \<and> (\<forall>t'. UpdateLastProcessedCall t' \<in> set cs \<longrightarrow> t' = t)"
proof -
  from getMostRecentTrack_nonempty[OF assms(3)] obtain t where mr: "getMostRecentTrack D (Some u) = Some t"
    by blast
  from getMostRecentTrack_mem[OF mr] have tu: "t \<in> set u" .
  from assms(1) mr obtain w1 cs2 w2 where
    a: "updateLastProcessed t now w = (None, w1)"
    and b: "addAllToFailedQueue f now w1 = (None, cs2, w2)"
    and c: "updateStats sc fc now w2 = (None, w')"
    and cs: "cs = [UpdateLastProcessedCall t] @ cs2 @ [UpdateStatsCall sc fc]"
    by (auto simp: updateStateStep_def Let_def split: prod.splits option.splits)
  from updateLastProcessed_stored[OF a assms(2)] obtain d1 m where
    k1: "kvReadsOk w1" and s1: "storedDoc w1 = Some d1"
    and m: "lastProcessed d1 = Some m" "playedAt m = played_at t" by blast
  from addAllToFailedQueue_stored[OF b k1 s1] obtain d2 where
    k2: "kvReadsOk w2" and s2: "storedDoc w2 = Some d2"
    and c2: "lastProcessed d2 = lastProcessed d1"
    and n2: "\<forall>t. UpdateLastProcessedCall t \<notin> set cs2" by blast
  from updateStats_kept[OF c k2 s2] obtain d3 where
    k3: "kvReadsOk w'" and s3: "storedDoc w' = Some d3" and c3: "lastProcessed d3 = lastProcessed d2" by blast
  from tu k3 s3 c3 c2 m n2 cs show ?thesis by auto
qed

lemma finalizeStep_stored:
  assumes "finalizeStep E w = (r, w')" and "kvReadsOk w" and "storedDoc w = Some d"
  shows "\<exists>d'. storedDoc w' = Some d' \<and> lastProcessed d' = lastProcessed d"
proof -
  obtain r1 w1 where a: "endExecution (metricsUpdate E) w = (r1, w1)"
    by (cases "endExecution (metricsUpdate E) w")
  from endExecution_stored[OF a assms(2,3)] obtain d1 where k1: "kvReadsOk w1"
    and s1: "storedDoc w1 = Some d1" and c1: "lastProcessed d1 = lastProcessed d" by blast
  obtain r2 w2 where b: "alertWrites (thresholdAlerts E) w1 = (r2, w2)"
    by (cases "alertWrites (thresholdAlerts E) w1")
  from alertWrites_stored[OF b k1 s1] obtain d2 where k2: "kvReadsOk w2"
    and s2: "storedDoc w2 = Some d2" and c2: "lastProcessed d2 = lastProcessed d1" by blast
  obtain r3 w3 where c: "alertWrite (successUpdate E) w2 = (r3, w3)"
    by (cases "alertWrite (successUpdate E) w2")
  from alertWrite_stored[OF c k2 s2] obtain d3 where
    s3: "storedDoc w3 = Some d3" and c3: "lastProcessed d3 = lastProcessed d2" by blast
  from assms(1) a b c have "w' = w1 \<or> w' = w2 \<or> w' = w3"
    by (auto simp: finalizeStep_def checkAlertThresholds_def trackSuccessfulRun_def
             split: option.splits)
  with s1 c1 s2 c2 s3 c3 show ?thesis by auto
qed

lemma enrichTracks_formats:
  "enrichTracks D f u = Inr r \<Longrightarrow> \<forall>x \<in> set u. \<not> formatTimestampThrows D x"
proof (induction u arbitrary: r)
  case Nil
  then show ?case by simp
next
  case (Cons t ts)
  from Cons.prems obtain r' where "enrichTracks D f ts = Inr r'" and "\<not> formatTimestampThrows D t"
    by (auto split: option.splits if_splits sum.splits)
  with Cons.IH show ?case by auto
qed

lemma gatherStep_Enriched_formats:
  assumes "gatherStep E w = Enriched u f sc fc"
  shows "\<forall>x \<in> set u. \<not> formatTimestampThrows (dateParse E) x"
proof -
  from assms have "\<exists>r. enrichTracks (dateParse E) (enrichError E) u = Inr r"
    by (auto simp: gatherStep_def Let_def split: sum.splits if_splits prod.splits)
  with enrichTracks_formats show ?thesis by blast
qed

text \<open>
  Claim C3, as the code has it. Take a run that answers 200 and whose store can be read,
  where every item Spotify returned carries a \<open>played_at\<close> and the persisted
  \<open>lastProcessed.playedAt\<close> is absent (read as 0) or parses, to \<open>b\<close>. Then the persisted
  \<open>lastProcessed.playedAt\<close> after the run is absent or parses, to some \<open>a \<ge> b\<close>; and when
  the run called \<open>updateLastProcessed\<close> for a track, the persisted marker carries that
  track's \<open>played_at\<close>, which parses to \<open>a\<close>, and \<open>a > b\<close>.
\<close>

theorem lastProcessed_monotone:
  assumes run: "logHandler E w = (Status200 msg, cs, w')"
    and reads: "storeReadable w"
    and tb: "lastProcessedTime (dateParse E) (storedDoc w) = Some b"
    and present: "\<forall>items. recentlyPlayed E = Inr (Some items) \<longrightarrow>
                  (\<forall>x \<in> set items. truthy (played_at x))"
  shows "\<exists>a. lastProcessedTime (dateParse E) (storedDoc w') = Some a \<and> b \<le> a
           \<and> (\<forall>t. UpdateLastProcessedCall t \<in> set cs \<longrightarrow>
                 (\<exists>d1 m. storedDoc w' = Some d1 \<and> lastProcessed d1 = Some m \<and> playedAt m = played_at t)
                 \<and> getTime (dateParse E) (played_at t) = Some a \<and> b < a)"
proof (cases "gatherStep E (startExecution w)")
  case (EarlyReturn m)
  with run have "w' = startExecution w" and "cs = []"
    by (auto simp: logHandler_def Let_def)
  with tb show ?thesis by auto
next
  case (Thrown e)
  with run catchPath_cases[of E e "[]" "startExecution w"] show ?thesis
    by (auto simp: logHandler_def Let_def)
next
  case (Enriched u f sc fc)
  let ?ws = "startExecution w"
  from gatherStep_Enriched_load[OF Enriched] obtain d0 og0 where ls: "loadState ?ws = Inr (d0, og0)"
    by blast
  then have l0: "loadState w = Inr (d0, og0)" by simp
  have tb0: "lastProcessedTime (dateParse E) (Some d0) = Some b"
    using lastProcessedTime_marker[of "Some d0" "storedDoc w" "dateParse E"]
      loadState_readable[OF reads l0] tb by (simp add: state_marker_def)
  have ks: "kvReadsOk ?ws" using storeReadable_kvReadsOk[OF reads] by simp
  from run Enriched obtain w1 where
    app: "appendError E = None"
    and us: "updateStateStep (dateParse E) u f sc fc (nowISO E) ?ws = (None, cs, w1)"
    and fin: "finalizeStep E w1 = (None, w')"
    using catchPath_cases[of E _ _ _]
    by (auto simp: logHandler_def Let_def split: option.splits prod.splits)
       (metis response.distinct(1,3) fst_conv)+
  from gatherStep_Enriched[OF Enriched ls] obtain items where
    une: "u \<noteq> []" and rp: "recentlyPlayed E = Inr (Some items)"
    and keep: "\<forall>x \<in> set u. x \<in> set items \<and> keepPlay (dateParse E) (Some d0) x" by blast
  from updateStateStep_stored[OF us ks une] obtain t d1 m where
    tu: "t \<in> set u" and k1: "kvReadsOk w1" and s1: "storedDoc w1 = Some d1"
    and m: "lastProcessed d1 = Some m" "playedAt m = played_at t"
    and only: "\<forall>t'. UpdateLastProcessedCall t' \<in> set cs \<longrightarrow> t' = t" by blast
  from finalizeStep_stored[OF fin k1 s1] obtain d2 where
    s2: "storedDoc w' = Some d2" and c2: "lastProcessed d2 = lastProcessed d1" by blast
  from keep tu present rp have tr: "truthy (played_at t)" by auto
  from gatherStep_Enriched_formats[OF Enriched] tu tr obtain a where
    a: "getTime (dateParse E) (played_at t) = Some a"
    by (auto simp: formatTimestampThrows_def)
  from keep tu have "keepPlay (dateParse E) (Some d0) t" by simp
  from keepPlay_newer[OF this a tb0] have ba: "b < a" .
  have "lastProcessedTime (dateParse E) (Some d2) = Some a"
    using c2 m a tr by (simp add: lastProcessedTime_def)
  with s2 ba c2 m only a show ?thesis by auto
qed

theorem lastProcessed_monotone_witness:
  "storeReadable (localWorld (Doc (sampleDoc (Some (sampleMarker ''abc'' ''2025-01-01T00:00:00.000Z'')) [])) Missing True)
   \<and> lastProcessedTime sampleDates (storedDoc (localWorld (Doc (sampleDoc (Some (sampleMarker ''abc'' ''2025-01-01T00:00:00.000Z'')) [])) Missing True)) = Some 1735689600000
   \<and> fst (logHandler
       (sampleLogEnv [sampleTrack ''xyz'' 180000 ''2025-01-01T00:02:00.000Z'',
                      sampleTrack ''abc'' 180000 ''2025-01-01T00:01:00.000Z'',
                      sampleTrack ''abc'' 180000 ''2025-01-01T00:00:00.000Z'']
          [[''Timestamp''], sampleRow ''2025-01-01T00:00:00.000Z'' ''abc'']
          (\<lambda>t. None) None)
       (localWorld (Doc (sampleDoc (Some (sampleMarker ''abc'' ''2025-01-01T00:00:00.000Z'')) [])) Missing True)) = Status200 ''Logging complete''
   \<and> fst (snd (logHandler
       (sampleLogEnv [sampleTrack ''xyz'' 180000 ''2025-01-01T00:02:00.000Z'',
                      sampleTrack ''abc'' 180000 ''2025-01-01T00:01:00.000Z'',
                      sampleTrack ''abc'' 180000 ''2025-01-01T00:00:00.000Z'']
          [[''Timestamp''], sampleRow ''2025-01-01T00:00:00.000Z'' ''abc'']
          (\<lambda>t. None) None)
       (localWorld (Doc (sampleDoc (Some (sampleMarker ''abc'' ''2025-01-01T00:00:00.000Z'')) [])) Missing True)))
     = [UpdateLastProcessedCall (sampleTrack ''xyz'' 180000 ''2025-01-01T00:02:00.000Z''), UpdateStatsCall 2 0]
   \<and> lastProcessedTime sampleDates (storedDoc (snd (snd (logHandler
       (sampleLogEnv [sampleTrack ''xyz'' 180000 ''2025-01-01T00:02:00.000Z'',
                      sampleTrack ''abc'' 180000 ''2025-01-01T00:01:00.000Z'',
                      sampleTrack ''abc'' 180000 ''2025-01-01T00:00:00.000Z'']
          [[''Timestamp''], sampleRow ''2025-01-01T00:00:00.000Z'' ''abc'']
          (\<lambda>t. None) None)
       (localWorld (Doc (sampleDoc (Some (sampleMarker ''abc'' ''2025-01-01T00:00:00.000Z'')) [])) Missing True))))) = Some 1735689720000
   \<and> (1735689600000 :: int) < 1735689720000
   \<and> storeReadable (kvWorld (Some (sampleDoc (Some (sampleMarker ''abc'' ''2025-01-01T00:00:00.000Z'')) [])) True [])
   \<and> lastProcessedTime sampleDates (storedDoc (kvWorld (Some (sampleDoc (Some (sampleMarker ''abc'' ''2025-01-01T00:00:00.000Z'')) [])) True [])) = Some 1735689600000
   \<and> fst (logHandler
       (sampleLogEnv [sampleTrack ''xyz'' 180000 ''2025-01-01T00:02:00.000Z'',
                      sampleTrack ''abc'' 180000 ''2025-01-01T00:01:00.000Z'',
                      sampleTrack ''abc'' 180000 ''2025-01-01T00:00:00.000Z'']
          [[''Timestamp''], sampleRow ''2025-01-01T00:00:00.000Z'' ''abc'']
          (\<lambda>t. None) None)
       (kvWorld (Some (sampleDoc (Some (sampleMarker ''abc'' ''2025-01-01T00:00:00.000Z'')) [])) True [])) = Status200 ''Logging complete''
   \<and> lastProcessedTime sampleDates (storedDoc (snd (snd (logHandler
       (sampleLogEnv [sampleTrack ''xyz'' 180000 ''2025-01-01T00:02:00.000Z'',
                      sampleTrack ''abc'' 180000 ''2025-01-01T00:01:00.000Z'',
                      sampleTrack ''abc'' 180000 ''2025-01-01T00:00:00.000Z'']
          [[''Timestamp''], sampleRow ''2025-01-01T00:00:00.000Z'' ''abc'']
          (\<lambda>t. None) None)
       (kvWorld (Some (sampleDoc (Some (sampleMarker ''abc'' ''2025-01-01T00:00:00.000Z'')) [])) True []))))) = Some 1735689720000"
proof -
  let ?E = "sampleLogEnv [sampleTrack ''xyz'' 180000 ''2025-01-01T00:02:00.000Z'',
                      sampleTrack ''abc'' 180000 ''2025-01-01T00:01:00.000Z'',
                      sampleTrack ''abc'' 180000 ''2025-01-01T00:00:00.000Z'']
          [[''Timestamp''], sampleRow ''2025-01-01T00:00:00.000Z'' ''abc'']
          (\<lambda>t. None) None"
  let ?dq = "sampleDoc (Some (sampleMarker ''abc'' ''2025-01-01T00:00:00.000Z'')) []"
  let ?w = "localWorld (Doc ?dq) Missing True"
  let ?k = "kvWorld (Some ?dq) True []"
  let ?t = "sampleTrack ''xyz'' 180000 ''2025-01-01T00:02:00.000Z''"
  have rw: "storeReadable ?w"
    by (simp add: storeReadable_def shouldUseKV_def world_defs truthy_def)
  have rk: "storeReadable ?k"
    by (simp add: storeReadable_def shouldUseKV_def world_defs truthy_def)
  have tw: "lastProcessedTime (dateParse ?E) (storedDoc ?w) = Some 1735689600000"
    by (simp add: sampleLogEnv_def lastProcessedTime_def storedDoc_def shouldUseKV_def world_defs
          sample_defs js_defs)
  have tk: "lastProcessedTime (dateParse ?E) (storedDoc ?k) = Some 1735689600000"
    by (simp add: sampleLogEnv_def lastProcessedTime_def storedDoc_def shouldUseKV_def world_defs
          sample_defs js_defs)
  have present: "\<forall>items. recentlyPlayed ?E = Inr (Some items) \<longrightarrow>
                  (\<forall>x \<in> set items. truthy (played_at x))"
    by (auto simp: sampleLogEnv_def sample_defs js_defs)
  have tt: "getTime (dateParse ?E) (played_at ?t) = Some 1735689720000"
    by (simp add: sampleLogEnv_def sample_defs js_defs)
  have evw: "fst (logHandler ?E ?w) = Status200 ''Logging complete''
     \<and> fst (snd (logHandler ?E ?w)) = [UpdateLastProcessedCall ?t, UpdateStatsCall 2 0]"
    by (simp add: log_defs state_defs store_defs shouldUseKV_def world_defs sample_defs js_defs
          filter_defs sheet_defs Let_def)
  have evk: "fst (logHandler ?E ?k) = Status200 ''Logging complete''
     \<and> fst (snd (logHandler ?E ?k)) = [UpdateLastProcessedCall ?t, UpdateStatsCall 2 0]"
    by (simp add: log_defs state_defs store_defs shouldUseKV_def world_defs sample_defs js_defs
          filter_defs sheet_defs Let_def)
  from evw have runw: "logHandler ?E ?w = (Status200 ''Logging complete'',
       [UpdateLastProcessedCall ?t, UpdateStatsCall 2 0], snd (snd (logHandler ?E ?w)))"
    by (metis prod.collapse)
  from evk have runk: "logHandler ?E ?k = (Status200 ''Logging complete'',
       [UpdateLastProcessedCall ?t, UpdateStatsCall 2 0], snd (snd (logHandler ?E ?k)))"
    by (metis prod.collapse)
  from lastProcessed_monotone[OF runw rw tw present] tt
  have aw: "lastProcessedTime (dateParse ?E) (storedDoc (snd (snd (logHandler ?E ?w)))) = Some 1735689720000"
    by auto
  from lastProcessed_monotone[OF runk rk tk present] tt
  have ak: "lastProcessedTime (dateParse ?E) (storedDoc (snd (snd (logHandler ?E ?k)))) = Some 1735689720000"
    by auto
  have dp: "dateParse ?E = sampleDates" by (simp add: sampleLogEnv_def)
  from rw rk tw tk evw evk aw ak show ?thesis unfolding dp by simp
qed

text \<open>
  The claim as written fails when the store cannot be read. On the KV backend with
  \<open>kv.get\<close> failing, \<open>loadState\<close> hands out a copy of \<open>DEFAULT_STATE\<close>, so the filter compares
  against 0: with a marker at 01:00:00 persisted, a play at 00:02:00 is logged, the run
  answers 200 and calls \<open>updateLastProcessed\<close> for that older play. \<open>updateStats\<close> and the
  metrics and alert writes then each load the default document again and save it, so the
  persisted document ends with no \<open>lastProcessed\<close> at all.
\<close>

theorem lastProcessed_monotone_counterexample:
  "lastProcessedTime sampleDates (storedDoc (kvWorld (Some (sampleDoc (Some (sampleMarker ''abc'' ''2025-01-01T01:00:00.000Z'')) [])) False [])) = Some 1735693200000
   \<and> fst (logHandler
       (sampleLogEnv [sampleTrack ''xyz'' 180000 ''2025-01-01T00:02:00.000Z'']
          [] (\<lambda>t. None) None)
       (kvWorld (Some (sampleDoc (Some (sampleMarker ''abc'' ''2025-01-01T01:00:00.000Z'')) [])) False [])) = Status200 ''Logging complete''
   \<and> fst (snd (logHandler
       (sampleLogEnv [sampleTrack ''xyz'' 180000 ''2025-01-01T00:02:00.000Z'']
          [] (\<lambda>t. None) None)
       (kvWorld (Some (sampleDoc (Some (sampleMarker ''abc'' ''2025-01-01T01:00:00.000Z'')) [])) False [])))
     = [UpdateLastProcessedCall (sampleTrack ''xyz'' 180000 ''2025-01-01T00:02:00.000Z''), UpdateStatsCall 1 0]
   \<and> getTime sampleDates (played_at (sampleTrack ''xyz'' 180000 ''2025-01-01T00:02:00.000Z'')) = Some 1735689720000
   \<and> (1735689720000 :: int) < 1735693200000
   \<and> map_option lastProcessed (storedDoc (snd (snd (logHandler
       (sampleLogEnv [sampleTrack ''xyz'' 180000 ''2025-01-01T00:02:00.000Z'']
          [] (\<lambda>t. None) None)
       (kvWorld (Some (sampleDoc (Some (sampleMarker ''abc'' ''2025-01-01T01:00:00.000Z'')) [])) False []))))) = Some None
   \<and> lastProcessedTime sampleDates (storedDoc (snd (snd (logHandler
       (sampleLogEnv [sampleTrack ''xyz'' 180000 ''2025-01-01T00:02:00.000Z'']
          [] (\<lambda>t. None) None)
       (kvWorld (Some (sampleDoc (Some (sampleMarker ''abc'' ''2025-01-01T01:00:00.000Z'')) [])) False []))))) = Some 0"
  by (simp add: log_defs state_defs store_defs shouldUseKV_def world_defs sample_defs js_defs
        filter_defs sheet_defs Let_def)

text \<open>
  The condition on \<open>played_at\<close> is needed as well, on a store that can be read: an item
  without \<open>played_at\<close> passes every filter (each comparison with \<open>NaN\<close> is false) and is
  the most recent track of its run, so \<open>updateLastProcessed\<close> writes a marker without
  \<open>playedAt\<close>, which the next run reads as 0.
\<close>

lemma lastProcessed_needs_played_at:
  "storeReadable (localWorld (Doc (sampleDoc (Some (sampleMarker ''abc'' ''2025-01-01T01:00:00.000Z'')) [])) Missing True)
   \<and> lastProcessedTime sampleDates
         (storedDoc (localWorld (Doc (sampleDoc (Some (sampleMarker ''abc'' ''2025-01-01T01:00:00.000Z'')) [])) Missing True))
       = Some 1735693200000
   \<and> fst (logHandler
       (sampleLogEnv [(sampleTrack ''xyz'' 180000 [])\<lparr>played_at := None\<rparr>] [] (\<lambda>t. None) None)
       (localWorld (Doc (sampleDoc (Some (sampleMarker ''abc'' ''2025-01-01T01:00:00.000Z'')) [])) Missing True))
     = Status200 ''Logging complete''
   \<and> fst (snd (logHandler
       (sampleLogEnv [(sampleTrack ''xyz'' 180000 [])\<lparr>played_at := None\<rparr>] [] (\<lambda>t. None) None)
       (localWorld (Doc (sampleDoc (Some (sampleMarker ''abc'' ''2025-01-01T01:00:00.000Z'')) [])) Missing True)))
     = [UpdateLastProcessedCall ((sampleTrack ''xyz'' 180000 [])\<lparr>played_at := None\<rparr>), UpdateStatsCall 1 0]
   \<and> map_option (map_option playedAt \<circ> lastProcessed) (storedDoc (snd (snd (logHandler
       (sampleLogEnv [(sampleTrack ''xyz'' 180000 [])\<lparr>played_at := None\<rparr>] [] (\<lambda>t. None) None)
       (localWorld (Doc (sampleDoc (Some (sampleMarker ''abc'' ''2025-01-01T01:00:00.000Z'')) [])) Missing True)))))
     = Some (Some None)
   \<and> lastProcessedTime sampleDates (storedDoc (snd (snd (logHandler
       (sampleLogEnv [(sampleTrack ''xyz'' 180000 [])\<lparr>played_at := None\<rparr>] [] (\<lambda>t. None) None)
       (localWorld (Doc (sampleDoc (Some (sampleMarker ''abc'' ''2025-01-01T01:00:00.000Z'')) [])) Missing True)))))
     = Some 0"
  by (simp add: log_defs state_defs store_defs storeReadable_def shouldUseKV_def world_defs sample_defs js_defs
        filter_defs sheet_defs Let_def)

section \<open>The retry queue\<close>

















lemma findIndex_Some: "findIndex Q xs = Some i \<Longrightarrow> i < length xs \<and> Q (xs ! i)"
proof (induction xs arbitrary: i)
  case Nil
  then show ?case by simp
next
  case (Cons x xs)
  then show ?case by (cases "Q x") (auto split: if_splits)
qed



























end
